theory Spec2Isabelle
  imports Complex_Main
begin

unbundle bit_operations_syntax

section \<open>Python primitives used by the simulator\<close>

text \<open>
  A Python \<open>str\<close> is modelled as a \<open>string\<close>: the sequence of its code points, each
  below 256. Python's \<open>int\<close> is \<open>int\<close>; the bit operations of HOL on \<open>int\<close> are
  those of Python (two's complement of unbounded width).
\<close>

definition is_space :: "char \<Rightarrow> bool" where
  \<comment> \<open>\<open>str.isspace\<close> on one code point below 256: what \<open>strip()\<close> and \<open>split()\<close> remove.\<close>
  "is_space c =
     (let n = of_char c :: nat
      in (9 \<le> n \<and> n \<le> 13) \<or> (28 \<le> n \<and> n \<le> 32) \<or> n = 133 \<or> n = 160)"

definition strip :: "string \<Rightarrow> string" where
  "strip s = rev (dropWhile is_space (rev (dropWhile is_space s)))"

fun split_acc :: "string \<Rightarrow> string \<Rightarrow> string list" where
  \<comment> \<open>\<open>str.split()\<close>: the maximal runs of non-space characters, in order.
     The first argument is the run being read.\<close>
  "split_acc cur [] = (if cur = [] then [] else [cur])"
| "split_acc cur (c # cs) =
     (if is_space c then (if cur = [] then split_acc [] cs else cur # split_acc [] cs)
      else split_acc (cur @ [c]) cs)"

definition split :: "string \<Rightarrow> string list" where
  "split s = split_acc [] s"



definition startswith :: "string \<Rightarrow> string \<Rightarrow> bool" where
  "startswith s p = (take (length p) s = p)"


definition digit_value :: "char \<Rightarrow> nat option" where
  \<comment> \<open>The value of a digit in the bases up to 36: 0-9, then a-z or A-Z.\<close>
  "digit_value c =
     (let n = of_char c :: nat
      in if 48 \<le> n \<and> n \<le> 57 then Some (n - 48)
         else if 97 \<le> n \<and> n \<le> 122 then Some (n - 87)
         else if 65 \<le> n \<and> n \<le> 90 then Some (n - 55)
         else None)"

definition is_digit :: "nat \<Rightarrow> char \<Rightarrow> bool" where
  "is_digit base c = (case digit_value c of Some d \<Rightarrow> d < base | None \<Rightarrow> False)"

fun digits_value :: "nat \<Rightarrow> nat \<Rightarrow> string \<Rightarrow> nat option" where
  \<comment> \<open>The digits of a literal after its first one: each is a digit, or one underscore
     followed by a digit. The second argument is the value read so far.\<close>
  "digits_value base acc [] = Some acc"
| "digits_value base acc [c] =
     (if is_digit base c then Some (acc * base + the (digit_value c)) else None)"
| "digits_value base acc (c # d # cs) =
     (if is_digit base c then digits_value base (acc * base + the (digit_value c)) (d # cs)
      else if c = CHR ''_'' \<and> is_digit base d then digits_value base acc (d # cs)
      else None)"

definition int_space :: "char \<Rightarrow> bool" where
  \<comment> \<open>The blanks \<open>int()\<close> skips around a literal: tab to carriage return and the space,
     and the two spaces from 128 on, which it reads as a space.\<close>
  "int_space c =
     (let n = of_char c :: nat in (9 \<le> n \<and> n \<le> 13) \<or> n = 32 \<or> n = 133 \<or> n = 160)"

definition py_int :: "nat \<Rightarrow> string \<Rightarrow> int option" where
  \<comment> \<open>\<open>int(s, base)\<close> for base 10 and 16; \<open>None\<close> is ValueError. Blanks around the
     literal, a sign, for base 16 the prefix \<open>0x\<close> (one underscore may follow it), then
     digits with single underscores between them. A decimal literal of more than 4300
     digits is refused (the interpreter's limit on conversions).\<close>
  "py_int base s =
     (let t = rev (dropWhile int_space (rev (dropWhile int_space s)));
          neg = (t \<noteq> [] \<and> hd t = CHR ''-'');
          u = (if t \<noteq> [] \<and> (hd t = CHR ''+'' \<or> hd t = CHR ''-'') then tl t else t);
          v = (if base = 16 \<and> (startswith u ''0x'' \<or> startswith u ''0X'')
               then (let w = drop 2 u in if startswith w ''_'' then tl w else w)
               else u)
      in if v = [] \<or> \<not> is_digit base (hd v) then None
         else if base = 10 \<and> 4300 < length (filter (is_digit base) v) then None
         else (case digits_value base 0 v of
                 None \<Rightarrow> None
               | Some n \<Rightarrow> Some (if neg then - int n else int n)))"

fun hex_digits :: "nat \<Rightarrow> string" where
  \<comment> \<open>The upper-case hex digits of a number, most significant first.\<close>
  "hex_digits n =
     (if n < 16 then [''0123456789ABCDEF'' ! n]
      else hex_digits (n div 16) @ [''0123456789ABCDEF'' ! (n mod 16)])"

declare hex_digits.simps [simp del]

definition format_X :: "nat \<Rightarrow> int \<Rightarrow> string" where
  \<comment> \<open>The format \<open>{v:0wX}\<close>: at least w characters, the sign counted, zeros after it.\<close>
  "format_X w v =
     (if v < 0 then CHR ''-'' # replicate (w - 1 - length (hex_digits (nat (- v)))) CHR ''0''
                      @ hex_digits (nat (- v))
      else replicate (w - length (hex_digits (nat v))) CHR ''0'' @ hex_digits (nat v))"

fun dec_digits :: "nat \<Rightarrow> string" where
  "dec_digits n =
     (if n < 10 then [''0123456789'' ! n]
      else dec_digits (n div 10) @ [''0123456789'' ! (n mod 10)])"

declare dec_digits.simps [simp del]

definition str_int :: "int \<Rightarrow> string" where
  \<comment> \<open>\<open>str(v)\<close> of an integer, as an f-string prints it.\<close>
  "str_int v = (if v < 0 then CHR ''-'' # dec_digits (nat (- v)) else dec_digits (nat v))"

fun join :: "string \<Rightarrow> string list \<Rightarrow> string" where
  "join sep [] = []"
| "join sep [x] = x"
| "join sep (x # y # ys) = x @ sep @ join sep (y # ys)"

definition py_range :: "int \<Rightarrow> int list" where
  \<comment> \<open>\<open>range(n)\<close>: empty when n is not positive.\<close>
  "py_range n = map int [0..<nat n]"

definition py_range3 :: "int \<Rightarrow> int \<Rightarrow> int \<Rightarrow> int list" where
  \<comment> \<open>\<open>range(start, stop, step)\<close> for a positive step: its length is
     \<open>(stop - start + step - 1) // step\<close> when that is positive, else 0, and its
     k-th element is \<open>start + k * step\<close>.\<close>
  "py_range3 start stop step =
     map (\<lambda>k. start + int k * step) [0..<nat ((stop - start + step - 1) div step)]"

fun contains :: "string \<Rightarrow> string \<Rightarrow> bool" where
  \<comment> \<open>\<open>sub in s\<close> on strings.\<close>
  "contains sub [] = (sub = [])"
| "contains sub (c # cs) = (startswith (c # cs) sub \<or> contains sub cs)"

section \<open>The CRC16 engine\<close>

definition crc_shift :: "int \<Rightarrow> int" where
  \<comment> \<open>One round of the inner loop of \<open>modbus_crc16\<close>.\<close>
  "crc_shift crc = (if crc AND 1 \<noteq> 0 then drop_bit 1 crc XOR 0xA001 else drop_bit 1 crc)"

fun crc_rounds :: "nat \<Rightarrow> int \<Rightarrow> int" where
  \<comment> \<open>\<open>for i in range(n)\<close> around \<open>crc_shift\<close>.\<close>
  "crc_rounds 0 crc = crc"
| "crc_rounds (Suc n) crc = crc_rounds n (crc_shift crc)"

definition crc_byte :: "int \<Rightarrow> int \<Rightarrow> int" where
  "crc_byte crc byte = crc_rounds 8 (crc XOR byte)"

definition modbus_crc16 :: "int list \<Rightarrow> int" where
  \<comment> \<open>The source returns \<open>(crc >> 8) | (crc << 8)\<close>, on unbounded integers.\<close>
  "modbus_crc16 data =
     (let crc = foldl crc_byte 0xFFFF data in drop_bit 8 crc OR push_bit 8 crc)"

section \<open>The state of the simulator and its collaborators\<close>

datatype py_exception =
    TypeError string
  | IndexError string
  | ValueError string
  | UnboundLocalError string
  | AttributeError string
  | TransportFault string

fun str_exn :: "py_exception \<Rightarrow> string" where
  \<comment> \<open>\<open>str(e)\<close>: the message the exception carries.\<close>
  "str_exn (TypeError m) = m"
| "str_exn (IndexError m) = m"
| "str_exn (ValueError m) = m"
| "str_exn (UnboundLocalError m) = m"
| "str_exn (AttributeError m) = m"
| "str_exn (TransportFault m) = m"

datatype py_values = Registers "int list" | Coils "bool list"

fun as_ints :: "py_values \<Rightarrow> int list" where
  \<comment> \<open>A Python bool is an int: True is 1 and False is 0.\<close>
  "as_ints (Registers vs) = vs"
| "as_ints (Coils bs) = map (\<lambda>b. if b then 1 else 0) bs"

fun repr_values :: "py_values \<Rightarrow> string" where
  "repr_values (Registers vs) = ''['' @ join '', '' (map str_int vs) @ '']''"
| "repr_values (Coils bs) =
     ''['' @ join '', '' (map (\<lambda>b. if b then ''True'' else ''False'') bs) @ '']''"

definition repr_strs :: "string list \<Rightarrow> string" where
  \<comment> \<open>The repr of a list of strings that hold no quote and no backslash.\<close>
  "repr_strs xs = ''['' @ join '', '' (map (\<lambda>x. [CHR 0x27] @ x @ [CHR 0x27]) xs) @ '']''"

text \<open>
  The pymodbus client is a collaborator: a call on it raises or returns a response
  object, of which the simulator reads \<open>isError()\<close>, \<open>registers\<close>, \<open>bits\<close>, its \<open>str\<close>
  and the attribute \<open>exception\<close> when there is one.
\<close>

datatype client_call =
    ReadHoldingRegisters int int int
  | WriteRegisters int "int list" int
  | WriteRegister int int int
  | ReadInputRegisters int int int
  | ReadCoils int int int
  | WriteCoils int "bool list" int
  | SocketWrite "int list"

record pdu =
  isError :: bool
  registers :: "int list"
  bits :: "bool list"
  shown :: string
  exception_attr :: "string option"

datatype client_reply = Raises py_exception | Returns pdu

type_synonym client = "client_call \<Rightarrow> client_reply"

text \<open>
  The wall clock of one command: \<open>timestamp.isoformat()\<close>, the response time in
  milliseconds and its rendering with two decimals.
\<close>

record clock =
  stamp :: string
  elapsed_ms :: real
  elapsed_2f :: string

datatype history_entry =
    RegisterEntry string string int int "py_values option" real bool
      \<comment> \<open>timestamp, command, address, count, values, response\_time\_ms, success\<close>
  | RawEntry string string string real bool
      \<comment> \<open>timestamp, command, raw\_bytes, response\_time\_ms, success\<close>

text \<open>
  The fields of the window that the commands read and write. \<open>register_vars\<close> is the
  dictionary of the 64 register boxes; \<open>log_queue\<close> holds (message, level);
  \<open>dialogs\<close> holds the messages of the error boxes shown; \<open>wire\<close> holds the calls made
  on the client; \<open>files\<close> holds the settings files written (name to JSON object).
\<close>

record gui =
  is_connected :: bool
  has_socket :: bool
  port_var :: string
  baud_var :: string
  slave_id_var :: string
  status_var :: string
  cmd_type_var :: string
  start_idx_var :: string
  length_var :: string
  raw_bytes_var :: string
  register_vars :: "int \<rightharpoonup> string"
  command_history :: "history_entry list"
  log_queue :: "(string \<times> string) list"
  dialogs :: "string list"
  wire :: "client_call list"
  files :: "string \<rightharpoonup> (string \<times> string) list"

definition log_message :: "string \<Rightarrow> string \<Rightarrow> gui \<Rightarrow> gui" where
  "log_message message level st = st\<lparr>log_queue := log_queue st @ [(message, level)]\<rparr>"

definition showerror :: "string \<Rightarrow> gui \<Rightarrow> gui" where
  \<comment> \<open>\<open>messagebox.showerror("Error", message)\<close>.\<close>
  "showerror message st = st\<lparr>dialogs := dialogs st @ [message]\<rparr>"

definition initial_registers :: "int \<rightharpoonup> string" where
  \<comment> \<open>\<open>create_register_display\<close>: the boxes 0 to 63, each holding 0x0000.\<close>
  "initial_registers = (\<lambda>a. if 0 \<le> a \<and> a < 64 then Some ''0x0000'' else None)"

section \<open>The register boxes\<close>



definition clear_all_registers :: "gui \<Rightarrow> gui" where
  "clear_all_registers st =
     log_message ''All register values cleared'' ''INFO''
       (st\<lparr>register_vars := (\<lambda>a. case register_vars st a of
                                       None \<Rightarrow> None | Some _ \<Rightarrow> Some ''0x0000'')\<rparr>)"

section \<open>The frame builder\<close>

definition subscript :: "py_values option \<Rightarrow> int \<Rightarrow> py_exception + int" where
  \<comment> \<open>\<open>values[k]\<close>: a negative index counts from the end.\<close>
  "subscript vals k =
     (case vals of
        None \<Rightarrow> Inl (TypeError (CHR 0x27 # ''NoneType'' @ CHR 0x27 # '' object is not subscriptable''))
      | Some vs \<Rightarrow>
          (let n = int (length (as_ints vs)); j = (if k < 0 then n + k else k)
           in if 0 \<le> j \<and> j < n then Inr (as_ints vs ! nat j)
              else Inl (IndexError ''list index out of range'')))"

fun coil_byte :: "int \<Rightarrow> py_values option \<Rightarrow> int \<Rightarrow> int list \<Rightarrow> int \<Rightarrow> py_exception + int" where
  \<comment> \<open>The inner loop of the packing, over the bit positions left, from \<open>byte_val\<close>.\<close>
  "coil_byte len vals i [] byte_val = Inr byte_val"
| "coil_byte len vals i (j # js) byte_val =
     (if i + j < len
      then (case subscript vals (i + j) of
              Inl e \<Rightarrow> Inl e
            | Inr v \<Rightarrow>
                coil_byte len vals i js
                  (if v \<noteq> 0 then byte_val OR push_bit (nat j) 1 else byte_val))
      else coil_byte len vals i js byte_val)"

fun coil_bytes :: "int \<Rightarrow> py_values option \<Rightarrow> int list \<Rightarrow> py_exception + int list" where
  \<comment> \<open>The outer loop of the packing, over the first coil of each byte.\<close>
  "coil_bytes len vals [] = Inr []"
| "coil_bytes len vals (i # rest) =
     (case coil_byte len vals i (py_range 8) 0 of
        Inl e \<Rightarrow> Inl e
      | Inr b \<Rightarrow>
          (case coil_bytes len vals rest of Inl e \<Rightarrow> Inl e | Inr bs \<Rightarrow> Inr (b # bs)))"

definition frame_bytes :: "string \<Rightarrow> int \<Rightarrow> int \<Rightarrow> int \<Rightarrow> py_values option \<Rightarrow> py_exception + int list" where
  \<comment> \<open>The list \<open>frame_bytes\<close> that \<open>log_modbus_frame\<close> builds, or what it raises.\<close>
  "frame_bytes cmd_type start_idx len slave_id vals =
     (if cmd_type = ''Read Holding Registers'' then
        Inr [slave_id, 0x03, drop_bit 8 start_idx AND 0xFF, start_idx AND 0xFF,
             drop_bit 8 len AND 0xFF, len AND 0xFF]
      else if cmd_type = ''Write Holding Registers'' then
        (case vals of
           None \<Rightarrow> Inl (TypeError (CHR 0x27 # ''NoneType'' @ CHR 0x27 # '' object is not iterable''))
         | Some vs \<Rightarrow>
             Inr ([slave_id, 0x10, drop_bit 8 start_idx AND 0xFF, start_idx AND 0xFF,
                   drop_bit 8 len AND 0xFF, len AND 0xFF, len * 2]
                  @ concat (map (\<lambda>v. [drop_bit 8 v AND 0xFF, v AND 0xFF]) (as_ints vs))))
      else if cmd_type = ''Write Single Register'' then
        (case subscript vals 0 of
           Inl e \<Rightarrow> Inl e
         | Inr v \<Rightarrow>
             Inr [slave_id, 0x06, drop_bit 8 start_idx AND 0xFF, start_idx AND 0xFF,
                  drop_bit 8 v AND 0xFF, v AND 0xFF])
      else if cmd_type = ''Read Input Registers'' then
        Inr [slave_id, 0x04, drop_bit 8 start_idx AND 0xFF, start_idx AND 0xFF,
             drop_bit 8 len AND 0xFF, len AND 0xFF]
      else if cmd_type = ''Read Coils'' then
        Inr [slave_id, 0x01, drop_bit 8 start_idx AND 0xFF, start_idx AND 0xFF,
             drop_bit 8 len AND 0xFF, len AND 0xFF]
      else if cmd_type = ''Write Coils'' then
        (case coil_bytes len vals (py_range3 0 len 8) of
           Inl e \<Rightarrow> Inl e
         | Inr packed \<Rightarrow>
             Inr ([slave_id, 0x0F, drop_bit 8 start_idx AND 0xFF, start_idx AND 0xFF,
                   drop_bit 8 len AND 0xFF, len AND 0xFF, (len + 7) div 8] @ packed))
      else Inl (UnboundLocalError
             (''cannot access local variable '' @ CHR 0x27 # ''frame_bytes'' @ CHR 0x27
              # '' where it is not associated with a value'')))"

definition builder_complete_frame :: "int list \<Rightarrow> int list" where
  \<comment> \<open>\<open>log_modbus_frame\<close>: \<open>crc_high = crc & 0xFF\<close>, \<open>crc_low = (crc >> 8) & 0xFF\<close>,
     \<open>complete_frame = frame_bytes + [crc_low, crc_high]\<close>.\<close>
  "builder_complete_frame fb =
     (let crc = modbus_crc16 fb; crc_high = crc AND 0xFF; crc_low = drop_bit 8 crc AND 0xFF
      in fb @ [crc_low, crc_high])"

definition log_modbus_frame :: "string \<Rightarrow> int \<Rightarrow> int \<Rightarrow> int \<Rightarrow> py_values option \<Rightarrow> gui \<Rightarrow> gui" where
  "log_modbus_frame cmd_type start_idx len slave_id vals st =
     (case frame_bytes cmd_type start_idx len slave_id vals of
        Inl e \<Rightarrow> log_message (''Error generating frame display: '' @ str_exn e) ''ERROR'' st
      | Inr fb \<Rightarrow>
          (let crc = modbus_crc16 fb; crc_high = crc AND 0xFF; crc_low = drop_bit 8 crc AND 0xFF;
               complete_frame = builder_complete_frame fb;
               hex_frame = join '' '' (map (format_X 2) complete_frame)
           in log_message
                (''Modbus Frame: '' @ hex_frame @ '' (CRC: '' @ format_X 2 crc_low @ '' ''
                  @ format_X 2 crc_high @ '')'')
                ''INFO'' st))"

section \<open>The command dispatcher\<close>

fun show_values :: "int \<Rightarrow> int list \<Rightarrow> (int \<rightharpoonup> string) \<Rightarrow> (int \<rightharpoonup> string)" where
  \<comment> \<open>\<open>for i, value in enumerate(read_values)\<close>: the box at \<open>start_idx + i\<close>, when
     there is one, is set to the value as \<open>0x\<close> and four hex digits. The first argument
     is the address of the next value.\<close>
  "show_values reg_addr [] vars = vars"
| "show_values reg_addr (v # vs) vars =
     show_values (reg_addr + 1) vs
       (case vars reg_addr of
          None \<Rightarrow> vars
        | Some _ \<Rightarrow> vars(reg_addr \<mapsto> ''0x'' @ format_X 4 v))"

definition command_label :: "string \<Rightarrow> int \<Rightarrow> int \<Rightarrow> string" where
  \<comment> \<open>The f-string \<open>{cmd_type} {start_idx}-{start_idx+length-1}\<close>.\<close>
  "command_label cmd_type start_idx len =
     cmd_type @ '' '' @ str_int start_idx @ ''-'' @ str_int (start_idx + len - 1)"

definition repr_opt :: "py_values option \<Rightarrow> string" where
  "repr_opt vals = (case vals of None \<Rightarrow> ''None'' | Some vs \<Rightarrow> repr_values vs)"

definition truthy :: "py_values option \<Rightarrow> bool" where
  \<comment> \<open>\<open>if values:\<close> holds for a list that is not empty.\<close>
  "truthy vals = (case vals of None \<Rightarrow> False | Some vs \<Rightarrow> as_ints vs \<noteq> [])"

definition handle_register_result ::
  "pdu \<Rightarrow> string \<Rightarrow> int \<Rightarrow> int \<Rightarrow> clock \<Rightarrow> bool \<Rightarrow> py_values option \<Rightarrow> gui \<Rightarrow> gui" where
  "handle_register_result result cmd_type start_idx len clk is_read vals st =
     (if isError result then
        (let st1 = log_message (''Error executing '' @ cmd_type @ '': '' @ shown result)
                     ''ERROR'' st;
             st2 = (case exception_attr result of
                      None \<Rightarrow> st1
                    | Some e \<Rightarrow> log_message (''Exception details: '' @ e) ''ERROR'' st1);
             st3 = log_message ''Expected Response: Device should echo back the same frame''
                     ''INFO'' st2
         in log_message
              ''Actual Response: No response received (timeout or communication error)''
              ''ERROR'' st3)
      else if is_read then
        (let read_values = (if contains ''Register'' cmd_type then Registers (registers result)
                            else Coils (bits result));
             st1 = st\<lparr>register_vars :=
                        show_values start_idx (as_ints read_values) (register_vars st)\<rparr>;
             st2 = log_message
                     (command_label cmd_type start_idx len @ '': '' @ repr_values read_values
                        @ '', Response Time: '' @ elapsed_2f clk @ ''ms'')
                     ''SUCCESS'' st1;
             st3 = log_message
                     (''Response Data: '' @ repr_values read_values
                        @ '' (PyModbus processed response)'')
                     ''INFO'' st2
         in st3\<lparr>command_history := command_history st3 @
                  [RegisterEntry (stamp clk) (command_label cmd_type start_idx len) start_idx len
                     (Some read_values) (elapsed_ms clk) True]\<rparr>)
      else
        (let st1 = log_message
                     (command_label cmd_type start_idx len @ '': '' @ repr_opt vals
                        @ '', Response Time: '' @ elapsed_2f clk @ ''ms'')
                     ''SUCCESS'' st;
             st2 = (if truthy vals
                    then log_message
                           (''Write Response: Echo back values '' @ repr_opt vals
                              @ '' (Write operation confirmed)'')
                           ''INFO'' st1
                    else st1)
         in st2\<lparr>command_history := command_history st2 @
                  [RegisterEntry (stamp clk) (command_label cmd_type start_idx len) start_idx len
                     vals (elapsed_ms clk) True]\<rparr>))"

definition register_value :: "int \<Rightarrow> string \<Rightarrow> string + int" where
  \<comment> \<open>The value of one box for a register write; \<open>Inl\<close> is the message of the error
     box that ends the command.\<close>
  "register_value reg_addr txt =
     (let hex_value = strip txt;
          hex_value = (if startswith hex_value ''0x'' \<or> startswith hex_value ''0X''
                       then drop 2 hex_value else hex_value)
      in if length hex_value \<noteq> 4
         then Inl (''Register '' @ str_int reg_addr
                   @ '': Please enter 4-digit hex value (e.g., 0x1234, 0xABCD)'')
         else (case py_int 16 hex_value of
                 None \<Rightarrow>
                   Inl (''Register '' @ str_int reg_addr
                        @ '': Invalid hex value. Please enter 4-digit hex values (0000-FFFF).'')
               | Some v \<Rightarrow> Inr v))"

fun collect_registers :: "(int \<rightharpoonup> string) \<Rightarrow> int list \<Rightarrow> int list \<Rightarrow> string + int list" where
  \<comment> \<open>The loop that fills \<open>values\<close> for Write Holding Registers, over the addresses
     left; an address with no box is passed over.\<close>
  "collect_registers vars acc [] = Inr acc"
| "collect_registers vars acc (reg_addr # rest) =
     (case vars reg_addr of
        None \<Rightarrow> collect_registers vars acc rest
      | Some txt \<Rightarrow>
          (case register_value reg_addr txt of
             Inl m \<Rightarrow> Inl m
           | Inr v \<Rightarrow> collect_registers vars (acc @ [v]) rest))"

definition coil_value :: "int \<Rightarrow> string \<Rightarrow> string + bool" where
  \<comment> \<open>The value of one box for a coil write: \<open>int(text)\<close>, which must be 0 or 1.\<close>
  "coil_value reg_addr txt =
     (case py_int 10 txt of
        None \<Rightarrow>
          Inl (''Invalid value in register '' @ str_int reg_addr
               @ ''. Please use Execute with proper values.'')
      | Some v \<Rightarrow>
          if v \<noteq> 0 \<and> v \<noteq> 1
          then Inl (''Coil value in register '' @ str_int reg_addr @ '' must be 0 or 1.'')
          else Inr (v \<noteq> 0))"

fun collect_coils :: "(int \<rightharpoonup> string) \<Rightarrow> bool list \<Rightarrow> int list \<Rightarrow> string + bool list" where
  "collect_coils vars acc [] = Inr acc"
| "collect_coils vars acc (reg_addr # rest) =
     (case vars reg_addr of
        None \<Rightarrow> collect_coils vars acc rest
      | Some txt \<Rightarrow>
          (case coil_value reg_addr txt of
             Inl m \<Rightarrow> Inl m
           | Inr v \<Rightarrow> collect_coils vars (acc @ [v]) rest))"

definition call_client ::
  "client \<Rightarrow> client_call \<Rightarrow> string \<Rightarrow> int \<Rightarrow> int \<Rightarrow> clock \<Rightarrow> bool \<Rightarrow> py_values option
     \<Rightarrow> gui \<Rightarrow> gui" where
  \<comment> \<open>The call on the client and what follows it inside the \<open>try\<close> of
     \<open>execute_register_command\<close>: a ValueError it raises ends in the error box of the
     outer handler, any other exception in a log line, a response goes to
     \<open>handle_register_result\<close>.\<close>
  "call_client cl call cmd_type start_idx len clk is_read vals st =
     (let st1 = st\<lparr>wire := wire st @ [call]\<rparr>
      in case cl call of
           Raises (ValueError m) \<Rightarrow>
             showerror ''Please enter valid numbers for start index and length'' st1
         | Raises e \<Rightarrow> log_message (''Error executing command: '' @ str_exn e) ''ERROR'' st1
         | Returns result \<Rightarrow>
             handle_register_result result cmd_type start_idx len clk is_read vals st1)"

definition addresses :: "int \<Rightarrow> int \<Rightarrow> int list" where
  \<comment> \<open>\<open>start_idx + i\<close> for \<open>i in range(length)\<close>.\<close>
  "addresses start_idx len = map (\<lambda>i. start_idx + i) (py_range len)"

definition run_command :: "client \<Rightarrow> clock \<Rightarrow> string \<Rightarrow> int \<Rightarrow> int \<Rightarrow> int \<Rightarrow> gui \<Rightarrow> gui" where
  \<comment> \<open>The branches of \<open>execute_register_command\<close> on the command type, after its
     checks of the start index and the length.\<close>
  "run_command cl clk cmd_type slave_id start_idx len st =
     (if cmd_type = ''Read Holding Registers'' then
        (let st1 = log_message
                     (''Sending Read Holding Registers: Start='' @ str_int start_idx
                        @ '', Count='' @ str_int len @ '', Device ID='' @ str_int slave_id)
                     ''INFO'' st;
             st2 = log_modbus_frame cmd_type start_idx len slave_id None st1
         in call_client cl (ReadHoldingRegisters start_idx len slave_id)
              cmd_type start_idx len clk True None st2)
      else if cmd_type = ''Write Holding Registers'' then
        (case collect_registers (register_vars st) [] (addresses start_idx len) of
           Inl m \<Rightarrow> showerror m st
         | Inr vs \<Rightarrow>
             (let hex_values = map (format_X 4) vs;
                  st1 = log_message
                          (''Sending Write Holding Registers: Start='' @ str_int start_idx
                             @ '', Values='' @ repr_strs hex_values
                             @ '', Device ID='' @ str_int slave_id)
                          ''INFO'' st;
                  st2 = log_modbus_frame cmd_type start_idx len slave_id (Some (Registers vs)) st1
              in call_client cl (WriteRegisters start_idx vs slave_id)
                   cmd_type start_idx len clk False (Some (Registers vs)) st2))
      else if cmd_type = ''Write Single Register'' then
        (case register_vars st start_idx of
           None \<Rightarrow> showerror (''Register '' @ str_int start_idx @ '' not found'') st
         | Some txt \<Rightarrow>
             (case register_value start_idx txt of
                Inl m \<Rightarrow> showerror m st
              | Inr v \<Rightarrow>
                  (let st1 = log_message
                               (''Sending Write Single Register: Address='' @ str_int start_idx
                                  @ '', Value='' @ format_X 4 v
                                  @ '', Device ID='' @ str_int slave_id)
                               ''INFO'' st;
                       st2 = log_modbus_frame cmd_type start_idx 1 slave_id
                               (Some (Registers [v])) st1
                   in call_client cl (WriteRegister start_idx v slave_id)
                        cmd_type start_idx 1 clk False (Some (Registers [v])) st2)))
      else if cmd_type = ''Read Input Registers'' then
        (let st1 = log_message
                     (''Sending Read Input Registers: Start='' @ str_int start_idx
                        @ '', Count='' @ str_int len @ '', Device ID='' @ str_int slave_id)
                     ''INFO'' st;
             st2 = log_modbus_frame cmd_type start_idx len slave_id None st1
         in call_client cl (ReadInputRegisters start_idx len slave_id)
              cmd_type start_idx len clk True None st2)
      else if cmd_type = ''Read Coils'' then
        (let st1 = log_message
                     (''Sending Read Coils: Start='' @ str_int start_idx
                        @ '', Count='' @ str_int len @ '', Device ID='' @ str_int slave_id)
                     ''INFO'' st;
             st2 = log_modbus_frame cmd_type start_idx len slave_id None st1
         in call_client cl (ReadCoils start_idx len slave_id)
              cmd_type start_idx len clk True None st2)
      else if cmd_type = ''Write Coils'' then
        (case collect_coils (register_vars st) [] (addresses start_idx len) of
           Inl m \<Rightarrow> showerror m st
         | Inr bs \<Rightarrow>
             (let coil_values = map (\<lambda>b. str_int (if b then 1 else 0)) bs;
                  st1 = log_message
                          (''Sending Write Coils: Start='' @ str_int start_idx
                             @ '', Values='' @ repr_strs coil_values
                             @ '', Device ID='' @ str_int slave_id)
                          ''INFO'' st;
                  st2 = log_modbus_frame cmd_type start_idx len slave_id (Some (Coils bs)) st1
              in call_client cl (WriteCoils start_idx bs slave_id)
                   cmd_type start_idx len clk False (Some (Coils bs)) st2))
      else st)"

definition execute_register_command :: "client \<Rightarrow> clock \<Rightarrow> gui \<Rightarrow> gui" where
  "execute_register_command cl clk st =
     (if \<not> is_connected st then showerror ''Not connected to Modbus device'' st
      else
        (case (py_int 10 (slave_id_var st), py_int 10 (start_idx_var st),
               py_int 10 (length_var st)) of
           (Some slave_id, Some start_idx, Some len) \<Rightarrow>
             if start_idx < 0 \<or> start_idx > 63
             then showerror ''Start index must be between 0 and 63'' st
             else if len < 1 \<or> len > 64 \<or> start_idx + len > 64
             then showerror ''Invalid length or range exceeds register limit'' st
             else run_command cl clk (cmd_type_var st) slave_id start_idx len st
         | _ \<Rightarrow> showerror ''Please enter valid numbers for start index and length'' st))"

section \<open>The raw frame composer\<close>

fun parse_hex_parts :: "int list \<Rightarrow> string list \<Rightarrow> string + int list" where
  \<comment> \<open>The loop over \<open>hex_parts\<close> that fills \<open>frame_bytes\<close>; \<open>Inl\<close> is the message of
     the error box that ends the command.\<close>
  "parse_hex_parts acc [] = Inr acc"
| "parse_hex_parts acc (part # rest) =
     (if length part \<noteq> 2
      then Inl (''Invalid hex byte: '' @ part
                @ ''. Each byte must be 2 hex digits (e.g., 01, FF)'')
      else (case py_int 16 part of
              None \<Rightarrow> Inl (''Invalid hex value: '' @ part)
            | Some byte_val \<Rightarrow> parse_hex_parts (acc @ [byte_val]) rest))"

definition raw_complete_frame :: "int list \<Rightarrow> int list" where
  \<comment> \<open>\<open>send_raw_command\<close>: \<open>crc_low = crc & 0xFF\<close>, \<open>crc_high = (crc >> 8) & 0xFF\<close>,
     \<open>complete_frame = frame_bytes + [crc_high, crc_low]\<close>.\<close>
  "raw_complete_frame fb =
     (let crc = modbus_crc16 fb; crc_low = crc AND 0xFF; crc_high = drop_bit 8 crc AND 0xFF
      in fb @ [crc_high, crc_low])"

definition transmit_raw :: "client \<Rightarrow> clock \<Rightarrow> int list \<Rightarrow> gui \<Rightarrow> gui" where
  \<comment> \<open>\<open>send_raw_command\<close> from the CRC on, for a frame that passed its checks.\<close>
  "transmit_raw cl clk fb st =
     (let crc = modbus_crc16 fb; crc_low = crc AND 0xFF; crc_high = drop_bit 8 crc AND 0xFF;
          complete_frame = raw_complete_frame fb;
          hex_frame = join '' '' (map (format_X 2) complete_frame);
          st1 = log_message
                  (''Sending Raw Command: '' @ hex_frame @ '' (CRC: '' @ format_X 2 crc_low
                     @ '' '' @ format_X 2 crc_high @ '')'')
                  ''INFO'' st
      in if has_socket st then
           (if \<not> list_all (\<lambda>b. 0 \<le> b \<and> b < 256) complete_frame
            then log_message ''Raw Command Error: bytes must be in range(0, 256)'' ''ERROR'' st1
            else
              (let st2 = st1\<lparr>wire := wire st1 @ [SocketWrite complete_frame]\<rparr>
               in case cl (SocketWrite complete_frame) of
                    Raises e \<Rightarrow> log_message (''Raw Command Error: '' @ str_exn e) ''ERROR'' st2
                  | Returns _ \<Rightarrow>
                      (let st3 = log_message
                                   (''Raw Command Sent: '' @ hex_frame @ '', Response Time: ''
                                      @ elapsed_2f clk @ ''ms'')
                                   ''SUCCESS'' st2;
                           st4 = log_message
                                   (''Note: Raw command sent successfully. ''
                                      @ ''Response parsing not implemented for raw commands.'')
                                   ''INFO'' st3
                       in st4\<lparr>command_history := command_history st4 @
                                [RawEntry (stamp clk) (''Raw Command: '' @ hex_frame) hex_frame
                                   (elapsed_ms clk) True]\<rparr>)))
         else log_message ''Raw Command Error: No active serial connection'' ''ERROR'' st1)"

definition send_raw_command :: "client \<Rightarrow> clock \<Rightarrow> gui \<Rightarrow> gui" where
  "send_raw_command cl clk st =
     (if \<not> is_connected st then showerror ''Not connected to Modbus device'' st
      else
        (let raw_input = strip (raw_bytes_var st)
         in if raw_input = [] then showerror ''Please enter raw bytes'' st
            else
              (let hex_parts = split raw_input
               in if length hex_parts < 2
                  then showerror
                         (''Command too short. Minimum 2 bytes required ''
                            @ ''(slave_id + function_code)'') st
                  else
                    (case parse_hex_parts [] hex_parts of
                       Inl m \<Rightarrow> showerror m st
                     | Inr fb \<Rightarrow>
                         (let slave_id = fb ! 0; function_code = fb ! 1
                          in if slave_id < 1 \<or> slave_id > 247
                             then showerror
                                    (''Invalid slave ID: '' @ str_int slave_id
                                       @ ''. Must be 1-247'') st
                             else if function_code < 1 \<or> function_code > 127
                             then showerror
                                    (''Invalid function code: '' @ str_int function_code
                                       @ ''. Must be 1-127'') st
                             else transmit_raw cl clk fb st)))))"

section \<open>Saving the settings\<close>

definition getattr_var :: "gui \<Rightarrow> string \<Rightarrow> py_exception + string" where
  \<comment> \<open>\<open>self.<name>.get()\<close> for a string variable of the window: the class creates the
     eight below and no other (there is no \<open>address_var\<close> and no \<open>count_var\<close>),
     and reading an attribute that does not exist raises AttributeError.\<close>
  "getattr_var st name =
     (if name = ''port_var'' then Inr (port_var st)
      else if name = ''baud_var'' then Inr (baud_var st)
      else if name = ''slave_id_var'' then Inr (slave_id_var st)
      else if name = ''status_var'' then Inr (status_var st)
      else if name = ''cmd_type_var'' then Inr (cmd_type_var st)
      else if name = ''start_idx_var'' then Inr (start_idx_var st)
      else if name = ''length_var'' then Inr (length_var st)
      else if name = ''raw_bytes_var'' then Inr (raw_bytes_var st)
      else Inl (AttributeError
                 (CHR 0x27 # ''ModbusSimulatorGUI'' @ CHR 0x27 # '' object has no attribute ''
                    @ CHR 0x27 # name @ [CHR 0x27])))"

fun read_settings :: "gui \<Rightarrow> (string \<times> string) list \<Rightarrow> py_exception + (string \<times> string) list" where
  \<comment> \<open>The dictionary literal of \<open>save_settings\<close>: the values are read in order, and
     the first one that raises ends the evaluation. The list pairs each key with the
     name of the variable it reads.\<close>
  "read_settings st [] = Inr []"
| "read_settings st ((key, name) # rest) =
     (case getattr_var st name of
        Inl e \<Rightarrow> Inl e
      | Inr v \<Rightarrow>
          (case read_settings st rest of Inl e \<Rightarrow> Inl e | Inr kvs \<Rightarrow> Inr ((key, v) # kvs)))"

definition save_settings :: "string \<Rightarrow> py_exception option \<Rightarrow> gui \<Rightarrow> py_exception + gui" where
  \<comment> \<open>\<open>filename\<close> is what the file dialog returns (empty when cancelled), \<open>io\<close> what
     writing the file raises, if anything. \<open>Inl\<close> is an exception that leaves the
     method.\<close>
  "save_settings filename io st =
     (case read_settings st
             [(''port'', ''port_var''), (''baudrate'', ''baud_var''),
              (''slave_id'', ''slave_id_var''), (''command_type'', ''cmd_type_var''),
              (''address'', ''address_var''), (''count'', ''count_var'')] of
        Inl e \<Rightarrow> Inl e
      | Inr settings \<Rightarrow>
          if filename \<noteq> [] then
            (case io of
               None \<Rightarrow>
                 Inr (log_message (''Settings saved to '' @ filename) ''SUCCESS''
                        (st\<lparr>files := (files st)(filename \<mapsto> settings)\<rparr>))
             | Some e \<Rightarrow> Inr (showerror (''Failed to save settings: '' @ str_exn e) st))
          else Inr st)"

section \<open>Sample states for the concrete checks\<close>

definition sample_gui :: gui where
  \<comment> \<open>The window after a connection: the defaults of \<open>create_widgets\<close>.\<close>
  "sample_gui =
     \<lparr>is_connected = True, has_socket = True, port_var = ''COM1'', baud_var = ''115200'',
      slave_id_var = ''1'', status_var = ''Connected'',
      cmd_type_var = ''Read Holding Registers'', start_idx_var = ''0'', length_var = ''1'',
      raw_bytes_var = [], register_vars = initial_registers, command_history = [],
      log_queue = [], dialogs = [], wire = [], files = Map.empty\<rparr>"

definition sample_clock :: clock where
  "sample_clock = \<lparr>stamp = ''2025-01-01T00:00:00'', elapsed_ms = 12, elapsed_2f = ''12.00''\<rparr>"

definition coil_response :: pdu where
  \<comment> \<open>A coil response of eight bits, the first one set, as the client pads every
     coil response to whole bytes.\<close>
  "coil_response =
     \<lparr>isError = False, registers = [],
      bits = [True, False, False, False, False, False, False, False],
      shown = ''ReadCoilsResponse'', exception_attr = None\<rparr>"

definition register_response :: pdu where
  \<comment> \<open>A register response holding the one value 0x001A.\<close>
  "register_response =
     \<lparr>isError = False, registers = [0x1A], bits = [],
      shown = ''ReadHoldingRegistersResponse'', exception_attr = None\<rparr>"

definition error_response :: pdu where
  "error_response =
     \<lparr>isError = True, registers = [], bits = [], shown = ''ExceptionResponse'',
      exception_attr = None\<rparr>"

section \<open>Properties\<close>

text \<open>
  C2 (the CRC16 engine returns a value of 16 bits). The engine is a total function, but
  its result is not masked: the left shift by 8 keeps the high byte of the checksum
  above bit 15. On the request \<open>01 03 00 00 00 01\<close> the checksum is \<open>0x0A84\<close> and the
  value returned is \<open>0x0A840A = 689162\<close>, which is above 65535.
\<close>

theorem modbus_crc16_exceeds_16_bits:
  "modbus_crc16 [1, 3, 0, 0, 0, 1] = 689162 \<and> \<not> modbus_crc16 [1, 3, 0, 0, 0, 1] \<le> 65535"
  by code_simp

subsection \<open>The canonical request frame\<close>

lemma strip_request: "strip ''01 03 00 00 00 01'' = ''01 03 00 00 00 01''"
  by code_simp

lemma split_request:
  "split ''01 03 00 00 00 01'' = [''01'', ''03'', ''00'', ''00'', ''00'', ''01'']"
  by code_simp

lemma parse_request:
  "parse_hex_parts [] [''01'', ''03'', ''00'', ''00'', ''00'', ''01''] = Inr [1, 3, 0, 0, 0, 1]"
  by code_simp

lemma crc_of_request: "modbus_crc16 [1, 3, 0, 0, 0, 1] = 689162"
  by code_simp

lemma builder_request:
  "builder_complete_frame [1, 3, 0, 0, 0, 1] = [1, 3, 0, 0, 0, 1, 0x84, 0x0A]"
  by code_simp

lemma raw_request: "raw_complete_frame [1, 3, 0, 0, 0, 1] = [1, 3, 0, 0, 0, 1, 0x84, 0x0A]"
  by code_simp

lemma hex_request:
  "join '' '' (map (format_X 2) [1, 3, 0, 0, 0, 1, 0x84, 0x0A]) = ''01 03 00 00 00 01 84 0A''"
  by code_simp

lemma frame_bytes_request:
  "frame_bytes ''Read Holding Registers'' 0 1 1 None = Inr [1, 3, 0, 0, 0, 1]"
  by code_simp

text \<open>
  C1, as stated (both paths append \<open>0A\<close> then \<open>84\<close> to \<open>01 03 00 00 00 01\<close>), fails:
  neither path builds the frame \<open>01 03 00 00 00 01 0A 84\<close>.
\<close>

theorem canonical_frame_counterexample:
  "frame_bytes ''Read Holding Registers'' 0 1 1 None = Inr [1, 3, 0, 0, 0, 1]
   \<and> builder_complete_frame [1, 3, 0, 0, 0, 1] \<noteq> [1, 3, 0, 0, 0, 1] @ [0x0A, 0x84]
   \<and> raw_complete_frame [1, 3, 0, 0, 0, 1] \<noteq> [1, 3, 0, 0, 0, 1] @ [0x0A, 0x84]"
  by (simp add: frame_bytes_request builder_request raw_request)

text \<open>
  C1, amended: for the byte sequence \<open>01 03 00 00 00 01\<close> the checksum is \<open>0x0A84\<close>,
  and both paths append its low byte \<open>84\<close> and then its high byte \<open>0A\<close>. The frame
  builder (Read Holding Registers, start 0, length 1, slave 1) logs the frame
  \<open>01 03 00 00 00 01 84 0A\<close>, and the raw composer hands the same eight bytes to the
  serial connection, whatever the rest of the state is.
\<close>

theorem canonical_frame_low_byte_first:
  "log_queue (log_modbus_frame ''Read Holding Registers'' 0 1 1 None st) =
     log_queue st @ [(''Modbus Frame: 01 03 00 00 00 01 84 0A (CRC: 84 0A)'', ''INFO'')]
   \<and> wire (send_raw_command cl clk
            (st\<lparr>is_connected := True, has_socket := True,
                raw_bytes_var := ''01 03 00 00 00 01''\<rparr>)) =
     wire st @ [SocketWrite [1, 3, 0, 0, 0, 1, 0x84, 0x0A]]"
proof -
  have builder: "log_queue (log_modbus_frame ''Read Holding Registers'' 0 1 1 None st) =
     log_queue st @ [(''Modbus Frame: 01 03 00 00 00 01 84 0A (CRC: 84 0A)'', ''INFO'')]"
    unfolding log_modbus_frame_def frame_bytes_request
    by (simp add: Let_def builder_request hex_request crc_of_request log_message_def
        format_X_def hex_digits.simps)
  have raw: "wire (send_raw_command cl clk
            (st\<lparr>is_connected := True, has_socket := True,
                raw_bytes_var := ''01 03 00 00 00 01''\<rparr>)) =
     wire st @ [SocketWrite [1, 3, 0, 0, 0, 1, 0x84, 0x0A]]"
    unfolding send_raw_command_def transmit_raw_def
    by (simp add: Let_def strip_request split_request parse_request raw_request log_message_def
        del: parse_hex_parts.simps split: client_reply.split)
  show ?thesis using builder raw by simp
qed

subsection \<open>The packing of coils\<close>

lemma subscript_coils:
  "0 \<le> k \<Longrightarrow> k < int (length bs) \<Longrightarrow>
     subscript (Some (Coils bs)) k = Inr (if bs ! nat k then 1 else 0)"
  by (simp add: subscript_def Let_def)

lemma coil_byte_bits:
  assumes "\<forall>j\<in>set js. 0 \<le> j" and "0 \<le> i" and "len \<le> int (length bs)"
  shows "\<exists>b. coil_byte len (Some (Coils bs)) i js acc = Inr b \<and>
           (\<forall>m. bit b m \<longleftrightarrow>
                  bit acc m \<or> (int m \<in> set js \<and> i + int m < len \<and> bs ! nat (i + int m)))"
  using assms(1)
proof (induction js arbitrary: acc)
  case Nil
  then show ?case by simp
next
  case (Cons j js)
  have j0: "0 \<le> j" using Cons.prems by simp
  have rest: "\<forall>j\<in>set js. 0 \<le> j" using Cons.prems by simp
  show ?case
  proof (cases "i + j < len")
    case False
    obtain b where b: "coil_byte len (Some (Coils bs)) i js acc = Inr b"
      and bits: "\<forall>m. bit b m \<longleftrightarrow>
                  bit acc m \<or> (int m \<in> set js \<and> i + int m < len \<and> bs ! nat (i + int m))"
      using Cons.IH [OF rest, of acc] by blast
    have "coil_byte len (Some (Coils bs)) i (j # js) acc = Inr b"
      using False b by simp
    moreover have "\<forall>m. bit b m \<longleftrightarrow>
          bit acc m \<or> (int m \<in> set (j # js) \<and> i + int m < len \<and> bs ! nat (i + int m))"
      using bits False by auto
    ultimately show ?thesis by blast
  next
    case True
    have inb: "0 \<le> i + j" "i + j < int (length bs)"
      using True j0 assms(2,3) by auto
    let ?acc = "if bs ! nat (i + j) then acc OR push_bit (nat j) 1 else acc"
    obtain b where b: "coil_byte len (Some (Coils bs)) i js ?acc = Inr b"
      and bits: "\<forall>m. bit b m \<longleftrightarrow>
                  bit ?acc m \<or> (int m \<in> set js \<and> i + int m < len \<and> bs ! nat (i + int m))"
      using Cons.IH [OF rest, of ?acc] by blast
    have step: "coil_byte len (Some (Coils bs)) i (j # js) acc = Inr b"
      using True b by (cases "bs ! nat (i + j)") (simp_all add: subscript_coils [OF inb])
    have acc_bits: "bit ?acc m \<longleftrightarrow> bit acc m \<or> (int m = j \<and> bs ! nat (i + j))" for m
      using j0 by (auto simp: bit_or_iff bit_push_bit_iff bit_1_iff bit_exp_iff)
    have "\<forall>m. bit b m \<longleftrightarrow>
          bit acc m \<or> (int m \<in> set (j # js) \<and> i + int m < len \<and> bs ! nat (i + int m))"
      using bits acc_bits True by auto
    with step show ?thesis by blast
  qed
qed

lemma mem_py_range: "int m \<in> set (py_range n) \<longleftrightarrow> int m < n"
  by (auto simp: py_range_def)

lemma py_range_nonneg: "\<forall>j\<in>set (py_range n). 0 \<le> j"
  by (auto simp: py_range_def)

lemma coil_bytes_bits:
  assumes "\<forall>i\<in>set idxs. 0 \<le> i" and "len \<le> int (length bs)"
  shows "\<exists>packed. coil_bytes len (Some (Coils bs)) idxs = Inr packed \<and>
           length packed = length idxs \<and>
           (\<forall>k<length idxs. \<forall>m. bit (packed ! k) m \<longleftrightarrow>
              (m < 8 \<and> idxs ! k + int m < len \<and> bs ! nat (idxs ! k + int m)))"
  using assms(1)
proof (induction idxs)
  case Nil
  then show ?case by simp
next
  case (Cons i idxs)
  have i0: "0 \<le> i" and rest: "\<forall>i\<in>set idxs. 0 \<le> i" using Cons.prems by simp_all
  obtain b where b: "coil_byte len (Some (Coils bs)) i (py_range 8) 0 = Inr b"
    and bbits: "\<forall>m. bit b m \<longleftrightarrow>
        bit (0::int) m \<or> (int m \<in> set (py_range 8) \<and> i + int m < len \<and> bs ! nat (i + int m))"
    using coil_byte_bits [OF py_range_nonneg i0 assms(2), of 8 0] by blast
  obtain packed where p: "coil_bytes len (Some (Coils bs)) idxs = Inr packed"
    and plen: "length packed = length idxs"
    and pbits: "\<forall>k<length idxs. \<forall>m. bit (packed ! k) m \<longleftrightarrow>
              (m < 8 \<and> idxs ! k + int m < len \<and> bs ! nat (idxs ! k + int m))"
    using Cons.IH [OF rest] by blast
  have b': "bit b m \<longleftrightarrow> (m < 8 \<and> i + int m < len \<and> bs ! nat (i + int m))" for m
    using bbits by (simp add: mem_py_range)
  have "coil_bytes len (Some (Coils bs)) (i # idxs) = Inr (b # packed)"
    using b p by simp
  moreover have "length (b # packed) = length (i # idxs)" using plen by simp
  moreover have "\<forall>k<length (i # idxs). \<forall>m. bit ((b # packed) ! k) m \<longleftrightarrow>
              (m < 8 \<and> (i # idxs) ! k + int m < len \<and> bs ! nat ((i # idxs) ! k + int m))"
  proof (intro allI impI)
    fix k m assume "k < length (i # idxs)"
    then show "bit ((b # packed) ! k) m \<longleftrightarrow>
              (m < 8 \<and> (i # idxs) ! k + int m < len \<and> bs ! nat ((i # idxs) ! k + int m))"
      using b' pbits by (cases k) auto
  qed
  ultimately show ?case by blast
qed

lemma byte_count_ceiling: "(len + 7) div 8 = \<lceil>real_of_int len / 8\<rceil>" for len :: int
proof -
  have "\<lceil>real_of_int len / real_of_int 8\<rceil> = - (- len div 8)"
    by (rule ceiling_divide_eq_div)
  also have "\<dots> = (len + 7) div 8" by presburger
  finally show ?thesis by simp
qed

text \<open>
  C6 (Write Coils packing). For a length from 1 to 64 and a list of that many coils,
  the frame of Write Coils is the slave id, the code \<open>0F\<close>, the start address and the
  quantity as two bytes each, then the byte count \<open>ceil(length / 8)\<close>, then that many
  bytes. Bit m of byte k is set exactly when m is below 8, coil \<open>8 * k + m\<close> exists and
  is on: the coils are packed from the least significant bit, and the bits of the last
  byte beyond the last coil, as every bit from 8 on, are 0.
\<close>

theorem write_coils_frame_packing:
  assumes "1 \<le> len" and "len \<le> 64" and "int (length coils) = len"
  shows "\<exists>packed.
           frame_bytes ''Write Coils'' start_idx len slave_id (Some (Coils coils)) =
             Inr ([slave_id, 0x0F, drop_bit 8 start_idx AND 0xFF, start_idx AND 0xFF, 0, len,
                   \<lceil>real_of_int len / 8\<rceil>] @ packed)
           \<and> int (length packed) = \<lceil>real_of_int len / 8\<rceil>
           \<and> (\<forall>k<length packed. \<forall>m. bit (packed ! k) m \<longleftrightarrow>
                 (m < 8 \<and> 8 * k + m < length coils \<and> coils ! (8 * k + m)))"
proof -
  let ?idxs = "py_range3 0 len 8"
  have idx_nonneg: "\<forall>i\<in>set ?idxs. 0 \<le> i" by (auto simp: py_range3_def)
  have idx_len: "int (length ?idxs) = (len + 7) div 8"
    using assms(1) by (simp add: py_range3_def add.commute)
  have idx_nth: "?idxs ! k = 8 * int k" if "k < length ?idxs" for k
    using that by (simp add: py_range3_def)
  obtain packed where p: "coil_bytes len (Some (Coils coils)) ?idxs = Inr packed"
    and plen: "length packed = length ?idxs"
    and pbits: "\<forall>k<length ?idxs. \<forall>m. bit (packed ! k) m \<longleftrightarrow>
              (m < 8 \<and> ?idxs ! k + int m < len \<and> coils ! nat (?idxs ! k + int m))"
    using coil_bytes_bits [OF idx_nonneg, of len coils] assms(3) by auto
  have hi: "drop_bit 8 len AND 0xFF = 0"
  proof -
    have "drop_bit 8 len = 0" using assms(1,2) by (simp add: drop_bit_eq_div)
    then show ?thesis by simp
  qed
  have lo: "len AND 0xFF = len"
  proof -
    have "take_bit 8 len = len" using assms(1,2) by (intro take_bit_int_eq_self) simp_all
    then have "len AND mask 8 = len" by (simp add: take_bit_eq_mask)
    then show ?thesis by (simp add: mask_eq_exp_minus_1)
  qed
  have frame: "frame_bytes ''Write Coils'' start_idx len slave_id (Some (Coils coils)) =
             Inr ([slave_id, 0x0F, drop_bit 8 start_idx AND 0xFF, start_idx AND 0xFF, 0, len,
                   \<lceil>real_of_int len / 8\<rceil>] @ packed)"
    unfolding frame_bytes_def using p hi lo by (simp add: byte_count_ceiling)
  have count: "int (length packed) = \<lceil>real_of_int len / 8\<rceil>"
    using plen idx_len by (simp add: byte_count_ceiling)
  have bits: "\<forall>k<length packed. \<forall>m. bit (packed ! k) m \<longleftrightarrow>
                 (m < 8 \<and> 8 * k + m < length coils \<and> coils ! (8 * k + m))"
  proof (intro allI impI)
    fix k m assume k: "k < length packed"
    then have k': "k < length ?idxs" using plen by simp
    have "bit (packed ! k) m \<longleftrightarrow>
              (m < 8 \<and> ?idxs ! k + int m < len \<and> coils ! nat (?idxs ! k + int m))"
      using pbits k' by blast
    moreover have "?idxs ! k + int m = int (8 * k + m)" using idx_nth [OF k'] by simp
    ultimately show "bit (packed ! k) m \<longleftrightarrow>
                 (m < 8 \<and> 8 * k + m < length coils \<and> coils ! (8 * k + m))"
      using assms(3) by (simp only: nat_int) auto
  qed
  show ?thesis using frame count bits by blast
qed

text \<open>
  The coils \<open>1 0 1 1 0 0 0 0\<close> at address 0 for slave 1: one byte, \<open>0D\<close>.
\<close>

theorem write_coils_frame_packing_witness:
  "(1::int) \<le> 8 \<and> (8::int) \<le> 64
   \<and> frame_bytes ''Write Coils'' 0 8 1
        (Some (Coils [True, False, True, True, False, False, False, False])) =
      Inr [1, 0x0F, 0, 0, 0, 8, 1, 0x0D]"
proof -
  let ?coils = "[True, False, True, True, False, False, False, False]"
  have h1: "(1::int) \<le> 8" and h2: "(8::int) \<le> 64" and h3: "int (length ?coils) = 8"
    by simp_all
  obtain packed where
    frame: "frame_bytes ''Write Coils'' 0 8 1 (Some (Coils ?coils)) =
             Inr ([1, 0x0F, drop_bit 8 0 AND 0xFF, 0 AND 0xFF, 0, 8, \<lceil>real_of_int 8 / 8\<rceil>] @ packed)"
    and count: "int (length packed) = \<lceil>real_of_int 8 / 8\<rceil>"
    and bits: "\<forall>k<length packed. \<forall>m. bit (packed ! k) m \<longleftrightarrow>
                 (m < 8 \<and> 8 * k + m < length ?coils \<and> ?coils ! (8 * k + m))"
    using write_coils_frame_packing [OF h1 h2 h3, of 0 1] by blast
  have eval: "frame_bytes ''Write Coils'' 0 8 1 (Some (Coils ?coils)) = Inr [1, 0x0F, 0, 0, 0, 8, 1, 0x0D]"
    by code_simp
  show ?thesis using frame eval by simp
qed

subsection \<open>The effect of a response on the bank and the history\<close>

lemma log_message_fields [simp]:
  "register_vars (log_message m l st) = register_vars st"
  "command_history (log_message m l st) = command_history st"
  "wire (log_message m l st) = wire st"
  "dialogs (log_message m l st) = dialogs st"
  "is_connected (log_message m l st) = is_connected st"
  by (simp_all add: log_message_def)

lemma showerror_fields [simp]:
  "register_vars (showerror m st) = register_vars st"
  "command_history (showerror m st) = command_history st"
  "wire (showerror m st) = wire st"
  "dialogs (showerror m st) = dialogs st @ [m]"
  "is_connected (showerror m st) = is_connected st"
  by (simp_all add: showerror_def)

lemma log_modbus_frame_fields [simp]:
  "register_vars (log_modbus_frame c s n d v st) = register_vars st"
  "command_history (log_modbus_frame c s n d v st) = command_history st"
  "wire (log_modbus_frame c s n d v st) = wire st"
  "dialogs (log_modbus_frame c s n d v st) = dialogs st"
  "is_connected (log_modbus_frame c s n d v st) = is_connected st"
  by (simp_all add: log_modbus_frame_def Let_def split: sum.split)

lemma handle_error_result:
  assumes "isError result"
  shows "register_vars (handle_register_result result c s n clk r v st) = register_vars st"
    and "command_history (handle_register_result result c s n clk r v st) = command_history st"
  using assms by (simp_all add: handle_register_result_def Let_def split: option.split)

lemma call_client_failed:
  assumes "\<And>r. cl call = Returns r \<Longrightarrow> isError r"
  shows "register_vars (call_client cl call c s n clk rd v st) = register_vars st
       \<and> command_history (call_client cl call c s n clk rd v st) = command_history st"
proof (cases "cl call")
  case (Raises e)
  then show ?thesis by (cases e) (simp_all add: call_client_def Let_def)
next
  case (Returns r)
  then have "isError r" using assms by simp
  then show ?thesis using Returns by (simp add: call_client_def Let_def handle_error_result)
qed

lemma run_command_failed:
  assumes "\<And>call r. cl call = Returns r \<Longrightarrow> isError r"
  shows "register_vars (run_command cl clk c d s n st) = register_vars st
       \<and> command_history (run_command cl clk c d s n st) = command_history st"
  unfolding run_command_def Let_def
  by (simp add: call_client_failed [OF assms] split: sum.split option.split)

text \<open>
  C7 (a failed command leaves the bank and the history alone). When every call on the
  client raises or returns an error response, \<open>execute_register_command\<close> leaves
  every register box and the command history as they were, whatever the command, the
  state and the fields of the window are: no history entry is appended and no box is
  changed.
\<close>

theorem failed_command_keeps_bank_and_history:
  assumes "\<And>call r. cl call = Returns r \<Longrightarrow> isError r"
  shows "register_vars (execute_register_command cl clk st) = register_vars st
       \<and> command_history (execute_register_command cl clk st) = command_history st"
  unfolding execute_register_command_def
  by (simp add: run_command_failed [OF assms] split: option.split)

text \<open>
  A Read Holding Registers that reaches the client and gets an error response.
\<close>

theorem failed_command_keeps_bank_and_history_witness:
  "register_vars (execute_register_command (\<lambda>_. Returns error_response) sample_clock sample_gui)
     = register_vars sample_gui
   \<and> command_history
       (execute_register_command (\<lambda>_. Returns error_response) sample_clock sample_gui)
     = command_history sample_gui
   \<and> wire (execute_register_command (\<lambda>_. Returns error_response) sample_clock sample_gui)
     = [ReadHoldingRegisters 0 1 1]
   \<and> isError error_response"
proof -
  have failing: "isError r" if "(\<lambda>_. Returns error_response) call = Returns r" for call r
    using that by (auto simp: error_response_def)
  have called:
    "wire (execute_register_command (\<lambda>_. Returns error_response) sample_clock sample_gui)
       = [ReadHoldingRegisters 0 1 1]"
    by code_simp
  have err: "isError error_response" by (simp add: error_response_def)
  show ?thesis
    using failed_command_keeps_bank_and_history
            [of "\<lambda>_. Returns error_response" sample_clock sample_gui, OF failing]
      called err
    by simp
qed

lemma show_values_apply:
  "show_values reg_addr vs vars a =
     (if reg_addr \<le> a \<and> a < reg_addr + int (length vs) \<and> vars a \<noteq> None
      then Some (''0x'' @ format_X 4 (vs ! nat (a - reg_addr)))
      else vars a)"
proof (induction vs arbitrary: reg_addr vars)
  case Nil
  then show ?case by auto
next
  case (Cons v vs)
  let ?vars = "case vars reg_addr of None \<Rightarrow> vars
               | Some _ \<Rightarrow> vars(reg_addr \<mapsto> ''0x'' @ format_X 4 v)"
  have step: "show_values reg_addr (v # vs) vars a = show_values (reg_addr + 1) vs ?vars a"
    by simp
  show ?case
  proof (cases "a = reg_addr")
    case True
    then show ?thesis
      unfolding step Cons.IH by (simp split: option.split)
  next
    case False
    have same: "?vars a = vars a" using False by (simp split: option.split)
    have idx: "(v # vs) ! nat (a - reg_addr) = vs ! nat (a - (reg_addr + 1))"
      if "reg_addr < a"
    proof -
      have "nat (a - reg_addr) = Suc (nat (a - (reg_addr + 1)))" using that by simp
      then show ?thesis by simp
    qed
    show ?thesis
      unfolding step Cons.IH same using False idx by auto
  qed
qed

text \<open>
  C3, amended: on a successful read (registers or coils) the boxes that receive values
  are those at \<open>start_idx + i\<close> for every i below the number of values the client
  returned, where the bank has such a box: box \<open>start_idx + i\<close> is set to the i-th
  value as \<open>0x\<close> and four hex digits, and every other box keeps its text. The boxes
  written are those of \<open>[start_idx, start_idx + length)\<close> when the client returns
  exactly \<open>length\<close> values.
\<close>

theorem successful_read_updates_bank:
  assumes "\<not> isError result"
  shows "register_vars
           (handle_register_result result cmd_type start_idx len clk True vals st) a =
         (let read_values = (if contains ''Register'' cmd_type then registers result
                             else map (\<lambda>b. if b then 1 else 0) (bits result))
          in if start_idx \<le> a \<and> a < start_idx + int (length read_values)
                \<and> register_vars st a \<noteq> None
             then Some (''0x'' @ format_X 4 (read_values ! nat (a - start_idx)))
             else register_vars st a)"
  using assms
  by (simp add: handle_register_result_def Let_def show_values_apply)

text \<open>
  Reading one holding register at address 0, answered with the value 0x001A.
\<close>

theorem successful_read_updates_bank_witness:
  "\<not> isError register_response
   \<and> register_vars
       (handle_register_result register_response ''Read Holding Registers'' 0 1 sample_clock
          True None sample_gui) 0 = Some ''0x001A''
   \<and> register_vars
       (handle_register_result register_response ''Read Holding Registers'' 0 1 sample_clock
          True None sample_gui) 1 = register_vars sample_gui 1"
proof -
  have ok: "\<not> isError register_response" by (simp add: register_response_def)
  have reg: "contains ''Register'' ''Read Holding Registers''" by code_simp
  have vals: "registers register_response = [26]" by (simp add: register_response_def)
  have slot: "register_vars sample_gui 0 \<noteq> None"
    by (simp add: sample_gui_def initial_registers_def)
  have fmt: "format_X 4 26 = ''001A''" by code_simp
  show ?thesis
    using successful_read_updates_bank
            [OF ok, of "''Read Holding Registers''" 0 1 sample_clock None sample_gui 0]
          successful_read_updates_bank
            [OF ok, of "''Read Holding Registers''" 0 1 sample_clock None sample_gui 1]
          ok reg vals slot fmt
    by (simp add: Let_def)
qed

text \<open>
  C3, as stated (only the boxes of \<open>[start_idx, start_idx + length)\<close> change, for
  every collection the client returns), fails: a Read Coils of length 1 at address 0
  that is answered with eight bits overwrites box 1, which held \<open>0x1234\<close>.
\<close>

theorem read_range_counterexample:
  "register_vars
     (sample_gui\<lparr>cmd_type_var := ''Read Coils'',
                 register_vars := initial_registers(1 \<mapsto> ''0x1234'')\<rparr>) 1 = Some ''0x1234''
   \<and> register_vars
       (execute_register_command (\<lambda>_. Returns coil_response) sample_clock
          (sample_gui\<lparr>cmd_type_var := ''Read Coils'',
                      register_vars := initial_registers(1 \<mapsto> ''0x1234'')\<rparr>)) 1 = Some ''0x0000''
   \<and> wire
       (execute_register_command (\<lambda>_. Returns coil_response) sample_clock
          (sample_gui\<lparr>cmd_type_var := ''Read Coils'',
                      register_vars := initial_registers(1 \<mapsto> ''0x1234'')\<rparr>))
       = [ReadCoils 0 1 1]"
  by code_simp

subsection \<open>The raw frame composer\<close>

lemma parse_hex_parts_prefix:
  "parse_hex_parts acc parts = Inr fb \<Longrightarrow> take (length acc) fb = acc"
proof (induction parts arbitrary: acc)
  case Nil
  then show ?case by simp
next
  case (Cons part rest)
  from Cons.prems obtain v where v: "py_int 16 part = Some v"
    and rec: "parse_hex_parts (acc @ [v]) rest = Inr fb"
    by (auto split: if_splits option.splits)
  have "take (length (acc @ [v])) fb = acc @ [v]" using Cons.IH [OF rec] .
  then have "take (length acc) (take (length (acc @ [v])) fb) = take (length acc) (acc @ [v])"
    by simp
  then show ?case by (simp add: min_def)
qed

lemma split_nil: "split [] = []"
  by (simp add: split_def)

lemma int_of_00: "py_int 16 ''00'' = Some 0"
  by code_simp

lemma str_int_0: "str_int 0 = ''0''"
  by code_simp

text \<open>
  C4, amended: the raw path rejects a first byte of 0 like every other value outside
  1 to 247. When the first token of the input is \<open>00\<close>, the command ends in an error
  box and leaves the state otherwise as it was, so that nothing is transmitted; when
  the input has at least two tokens and all of them are read as bytes, the box says
  \<open>Invalid slave ID: 0. Must be 1-247\<close>.
\<close>

theorem raw_rejects_slave_zero:
  assumes "is_connected st" and "split (strip (raw_bytes_var st)) = ''00'' # rest"
  shows "(\<exists>m. send_raw_command cl clk st = showerror m st)
       \<and> (rest \<noteq> [] \<and> (\<exists>fb. parse_hex_parts [] (''00'' # rest) = Inr fb)
            \<longrightarrow> send_raw_command cl clk st =
                  showerror ''Invalid slave ID: 0. Must be 1-247'' st)"
proof -
  have nonempty: "strip (raw_bytes_var st) \<noteq> []"
    using assms(2) split_nil by auto
  show ?thesis
  proof (cases "rest = []")
    case True
    then have "send_raw_command cl clk st =
        showerror (''Command too short. Minimum 2 bytes required ''
                     @ ''(slave_id + function_code)'') st"
      using assms nonempty by (simp add: send_raw_command_def Let_def)
    then show ?thesis using True by blast
  next
    case False
    then have long: "\<not> length (''00'' # rest) < 2" by (cases rest) simp_all
    show ?thesis
    proof (cases "parse_hex_parts [] (''00'' # rest)")
      case (Inl m)
      then have "send_raw_command cl clk st = showerror m st"
        using assms nonempty long
        by (simp add: send_raw_command_def Let_def del: parse_hex_parts.simps)
      then show ?thesis using Inl by auto
    next
      case (Inr fb)
      then have "parse_hex_parts [0] rest = Inr fb" by (simp add: int_of_00)
      from parse_hex_parts_prefix [OF this] have "take 1 fb = [0]" by simp
      then have first: "fb ! 0 = 0" by (cases fb) simp_all
      have "send_raw_command cl clk st =
          showerror ''Invalid slave ID: 0. Must be 1-247'' st"
        using assms nonempty long Inr first
        by (simp add: send_raw_command_def Let_def str_int_0 del: parse_hex_parts.simps)
      then show ?thesis by blast
    qed
  qed
qed

lemma strip_00_03: "strip ''00 03'' = ''00 03''" by code_simp
lemma split_00_03: "split ''00 03'' = [''00'', ''03'']" by code_simp
lemma parse_00_03: "parse_hex_parts [] [''00'', ''03''] = Inr [0, 3]" by code_simp

text \<open>
  The input \<open>00 03\<close>: two well-formed tokens, the first one the broadcast address.
\<close>

theorem raw_rejects_slave_zero_witness:
  "is_connected (sample_gui\<lparr>raw_bytes_var := ''00 03''\<rparr>)
   \<and> split (strip (raw_bytes_var (sample_gui\<lparr>raw_bytes_var := ''00 03''\<rparr>))) = [''00'', ''03'']
   \<and> parse_hex_parts [] [''00'', ''03''] = Inr [0, 3]
   \<and> send_raw_command (\<lambda>_. Returns register_response) sample_clock
        (sample_gui\<lparr>raw_bytes_var := ''00 03''\<rparr>) =
       showerror ''Invalid slave ID: 0. Must be 1-247'' (sample_gui\<lparr>raw_bytes_var := ''00 03''\<rparr>)"
proof -
  let ?st = "sample_gui\<lparr>raw_bytes_var := ''00 03''\<rparr>"
  have connected: "is_connected ?st" by (simp add: sample_gui_def)
  have tokens: "split (strip (raw_bytes_var ?st)) = ''00'' # [''03'']"
    by (simp add: strip_00_03 split_00_03)
  have parsed: "[''03''] \<noteq> [] \<and> (\<exists>fb. parse_hex_parts [] (''00'' # [''03'']) = Inr fb)"
    using parse_00_03 by simp
  have "send_raw_command (\<lambda>_. Returns register_response) sample_clock ?st =
          showerror ''Invalid slave ID: 0. Must be 1-247'' ?st"
    using raw_rejects_slave_zero [OF connected tokens] parsed by blast
  then show ?thesis using connected tokens parse_00_03 by simp
qed

text \<open>
  C4, as stated (the raw path accepts a first byte of 0), fails: on the input \<open>00 03\<close>
  the error box names the slave id and nothing reaches the serial connection.
\<close>

theorem raw_slave_zero_counterexample:
  "dialogs (send_raw_command (\<lambda>_. Returns register_response) sample_clock
              (sample_gui\<lparr>raw_bytes_var := ''00 03''\<rparr>)) =
     [''Invalid slave ID: 0. Must be 1-247'']
   \<and> wire (send_raw_command (\<lambda>_. Returns register_response) sample_clock
              (sample_gui\<lparr>raw_bytes_var := ''00 03''\<rparr>)) = []"
  by code_simp

text \<open>
  C5 (every token that is not two hex digits is refused as a malformed byte). The
  composer checks the length of a token and then reads it with \<open>int(part, 16)\<close>, which
  takes a sign: the token \<open>+5\<close> is read as the byte 05. On the input \<open>01 03 +5\<close> no error
  box is shown and the frame \<open>01 03 05 E0 F3\<close> is written to the serial connection.
\<close>

theorem raw_accepts_signed_token:
  "wire (send_raw_command (\<lambda>_. Returns register_response) sample_clock
              (sample_gui\<lparr>raw_bytes_var := ''01 03 +5''\<rparr>)) =
     [SocketWrite [1, 3, 5, 0xE0, 0xF3]]
   \<and> dialogs (send_raw_command (\<lambda>_. Returns register_response) sample_clock
              (sample_gui\<lparr>raw_bytes_var := ''01 03 +5''\<rparr>)) = []"
  by code_simp

text \<open>
  The two inputs the specification names are refused as it says: \<open>1\<close> is too short,
  and in \<open>GG 03\<close> the token \<open>GG\<close> is named as an invalid hex value.
\<close>

lemma raw_examples_rejected:
  "send_raw_command cl clk (sample_gui\<lparr>raw_bytes_var := ''1''\<rparr>) =
     showerror ''Command too short. Minimum 2 bytes required (slave_id + function_code)''
       (sample_gui\<lparr>raw_bytes_var := ''1''\<rparr>)"
  "send_raw_command cl clk (sample_gui\<lparr>raw_bytes_var := ''GG 03''\<rparr>) =
     showerror ''Invalid hex value: GG'' (sample_gui\<lparr>raw_bytes_var := ''GG 03''\<rparr>)"
proof -
  have a: "strip ''1'' = ''1''" "split ''1'' = [''1'']" by code_simp+
  have b: "strip ''GG 03'' = ''GG 03''" "split ''GG 03'' = [''GG'', ''03'']"
    "parse_hex_parts [] [''GG'', ''03''] = Inl ''Invalid hex value: GG''" by code_simp+
  show "send_raw_command cl clk (sample_gui\<lparr>raw_bytes_var := ''1''\<rparr>) =
     showerror ''Command too short. Minimum 2 bytes required (slave_id + function_code)''
       (sample_gui\<lparr>raw_bytes_var := ''1''\<rparr>)"
    by (simp add: send_raw_command_def Let_def a sample_gui_def)
  show "send_raw_command cl clk (sample_gui\<lparr>raw_bytes_var := ''GG 03''\<rparr>) =
     showerror ''Invalid hex value: GG'' (sample_gui\<lparr>raw_bytes_var := ''GG 03''\<rparr>)"
    by (simp add: send_raw_command_def Let_def b sample_gui_def del: parse_hex_parts.simps)
qed

subsection \<open>Saving the settings\<close>

text \<open>
  C10 (the settings are written as a JSON object of six fields). The dictionary of
  \<open>save_settings\<close> reads \<open>self.address_var\<close>, an attribute the class never creates
  (the start index and the length are held in \<open>start_idx_var\<close> and \<open>length_var\<close>).
  For every state, file name and outcome of the write, the method ends with the
  AttributeError before the file dialog is opened: no file is written.
\<close>

theorem save_settings_raises:
  "save_settings filename io st =
     Inl (AttributeError
           (CHR 0x27 # ''ModbusSimulatorGUI'' @ CHR 0x27 # '' object has no attribute ''
              @ CHR 0x27 # ''address_var'' @ [CHR 0x27]))"
  by (simp add: save_settings_def getattr_var_def)

subsection \<open>Write Coils and the text of the boxes\<close>

lemma log_message_vars [simp]:
  "slave_id_var (log_message m l st) = slave_id_var st"
  "start_idx_var (log_message m l st) = start_idx_var st"
  "length_var (log_message m l st) = length_var st"
  "cmd_type_var (log_message m l st) = cmd_type_var st"
  by (simp_all add: log_message_def)

lemma showerror_vars [simp]:
  "slave_id_var (showerror m st) = slave_id_var st"
  "start_idx_var (showerror m st) = start_idx_var st"
  "length_var (showerror m st) = length_var st"
  "cmd_type_var (showerror m st) = cmd_type_var st"
  by (simp_all add: showerror_def)

lemma log_modbus_frame_vars [simp]:
  "slave_id_var (log_modbus_frame c s n d v st) = slave_id_var st"
  "start_idx_var (log_modbus_frame c s n d v st) = start_idx_var st"
  "length_var (log_modbus_frame c s n d v st) = length_var st"
  "cmd_type_var (log_modbus_frame c s n d v st) = cmd_type_var st"
  by (simp_all add: log_modbus_frame_def Let_def split: sum.split)

lemma handle_register_result_vars [simp]:
  "is_connected (handle_register_result r c s n clk rd v st) = is_connected st"
  "slave_id_var (handle_register_result r c s n clk rd v st) = slave_id_var st"
  "start_idx_var (handle_register_result r c s n clk rd v st) = start_idx_var st"
  "length_var (handle_register_result r c s n clk rd v st) = length_var st"
  by (simp_all add: handle_register_result_def Let_def split: option.split)

lemma addresses_Cons:
  "1 \<le> len \<Longrightarrow> addresses start_idx len = start_idx # addresses (start_idx + 1) (len - 1)"
proof -
  assume "1 \<le> len"
  then have n: "nat len = Suc (nat (len - 1))" by simp
  have "map (\<lambda>i. start_idx + i) (map int [0..<Suc (nat (len - 1))]) =
        start_idx # map (\<lambda>i. start_idx + 1 + i) (map int [0..<nat (len - 1)])"
    by (simp add: upt_conv_Cons map_Suc_upt [symmetric] del: upt_Suc)
  then show ?thesis by (simp add: addresses_def py_range_def n del: upt_Suc)
qed

lemma in_addresses:
  "a \<in> set (addresses start_idx len) \<Longrightarrow> start_idx \<le> a \<and> a < start_idx + len"
  by (auto simp: addresses_def py_range_def)

lemma coil_value_ok: "py_int 10 txt \<in> {Some 0, Some 1} \<Longrightarrow> coil_value a txt = Inr (py_int 10 txt = Some 1)"
  by (auto simp: coil_value_def)

lemma coil_value_bad:
  "py_int 10 txt \<notin> {Some 0, Some 1} \<Longrightarrow>
     coil_value a txt =
       Inl (if py_int 10 txt = None
            then ''Invalid value in register '' @ str_int a
                   @ ''. Please use Execute with proper values.''
            else ''Coil value in register '' @ str_int a @ '' must be 0 or 1.'')"
  by (auto simp: coil_value_def split: option.split)

lemma collect_coils_find:
  assumes "\<forall>a\<in>set addrs. vars a \<noteq> None"
  shows "collect_coils vars acc addrs =
           (case find (\<lambda>a. \<not> (py_int 10 (the (vars a)) \<in> {Some 0, Some 1})) addrs of
              None \<Rightarrow> Inr (acc @ map (\<lambda>a. py_int 10 (the (vars a)) = Some 1) addrs)
            | Some a \<Rightarrow>
                Inl (if py_int 10 (the (vars a)) = None
                     then ''Invalid value in register '' @ str_int a
                            @ ''. Please use Execute with proper values.''
                     else ''Coil value in register '' @ str_int a @ '' must be 0 or 1.''))"
  using assms
proof (induction addrs arbitrary: acc)
  case Nil
  then show ?case by simp
next
  case (Cons a addrs)
  then obtain t where held: "vars a = Some t" by auto
  have rest: "\<forall>a\<in>set addrs. vars a \<noteq> None" using Cons.prems by simp
  let ?bad = "\<lambda>a. py_int 10 (the (vars a)) \<notin> {Some 0, Some 1}"
  let ?bit = "\<lambda>a. py_int 10 (the (vars a)) = Some 1"
  show ?case
  proof (cases "py_int 10 t \<in> {Some 0, Some 1}")
    case True
    have f: "find ?bad (a # addrs) = find ?bad addrs" using True held by auto
    have c: "collect_coils vars acc (a # addrs) =
               collect_coils vars (acc @ [py_int 10 t = Some 1]) addrs"
      using held True by (simp add: coil_value_ok)
    have m: "acc @ map ?bit (a # addrs) = (acc @ [py_int 10 t = Some 1]) @ map ?bit addrs"
      using held by simp
    show ?thesis unfolding f c m Cons.IH [OF rest] by (rule refl)
  next
    case False
    have f: "find ?bad (a # addrs) = Some a" using False held by auto
    have c: "collect_coils vars acc (a # addrs) =
               Inl (if py_int 10 t = None
                    then ''Invalid value in register '' @ str_int a
                           @ ''. Please use Execute with proper values.''
                    else ''Coil value in register '' @ str_int a @ '' must be 0 or 1.'')"
      using held False by (simp add: coil_value_bad)
    show ?thesis unfolding f c using held by simp
  qed
qed

lemma canonical_not_decimal:
  "py_int 10 ''0x0000'' = None" "py_int 10 ''0x0001'' = None"
  by code_simp+

lemma format_coil: "format_X 4 1 = ''0001''" "format_X 4 0 = ''0000''"
  by code_simp+

lemma read_coils_no_register: "\<not> contains ''Register'' ''Read Coils''"
  by code_simp

lemma first_bad_slot:
  assumes "1 \<le> len" and "vars start_idx = Some t" and "py_int 10 t = None"
  shows "collect_coils vars [] (addresses start_idx len) =
           Inl (''Invalid value in register '' @ str_int start_idx
                  @ ''. Please use Execute with proper values.'')"
  using assms by (simp add: addresses_Cons coil_value_def)


lemma call_client_wire:
  "wire (call_client cl call c s n clk rd v st) = wire st @ [call]"
proof (cases "cl call")
  case (Raises e)
  then show ?thesis by (cases e) (simp_all add: call_client_def Let_def)
next
  case (Returns r)
  then show ?thesis
    by (simp add: call_client_def Let_def handle_register_result_def split: option.split)
qed

lemma run_write_coils:
  "run_command cl clk ''Write Coils'' slave_id start_idx len st =
     (case collect_coils (register_vars st) [] (addresses start_idx len) of
        Inl m \<Rightarrow> showerror m st
      | Inr bs \<Rightarrow>
          call_client cl (WriteCoils start_idx bs slave_id) ''Write Coils'' start_idx len clk
            False (Some (Coils bs))
            (log_modbus_frame ''Write Coils'' start_idx len slave_id (Some (Coils bs))
               (log_message
                  (''Sending Write Coils: Start='' @ str_int start_idx @ '', Values=''
                     @ repr_strs (map (\<lambda>b. str_int (if b then 1 else 0)) bs)
                     @ '', Device ID='' @ str_int slave_id)
                  ''INFO'' st)))"
  by (simp add: run_command_def Let_def split: sum.split)

lemma run_read_coils:
  "run_command cl clk ''Read Coils'' slave_id start_idx len st =
     call_client cl (ReadCoils start_idx len slave_id) ''Read Coils'' start_idx len clk True None
       (log_modbus_frame ''Read Coils'' start_idx len slave_id None
          (log_message
             (''Sending Read Coils: Start='' @ str_int start_idx @ '', Count='' @ str_int len
                @ '', Device ID='' @ str_int slave_id)
             ''INFO'' st))"
  by (simp add: run_command_def Let_def)

lemma execute_valid:
  assumes "is_connected st"
    and "py_int 10 (slave_id_var st) = Some slave_id"
    and "py_int 10 (start_idx_var st) = Some start_idx"
    and "py_int 10 (length_var st) = Some len"
    and "0 \<le> start_idx" and "1 \<le> len" and "start_idx + len \<le> 64"
  shows "execute_register_command cl clk st =
           run_command cl clk (cmd_type_var st) slave_id start_idx len st"
  using assms by (simp add: execute_register_command_def)

lemma write_coils_in_range:
  assumes connected: "is_connected st"
    and slave: "py_int 10 (slave_id_var st) = Some slave_id"
    and start: "py_int 10 (start_idx_var st) = Some start_idx"
    and count: "py_int 10 (length_var st) = Some len"
    and range: "0 \<le> start_idx" "1 \<le> len" "start_idx + len \<le> 64"
    and bank: "dom (register_vars st) = {0..63}"
  shows
    "(\<forall>a. find (\<lambda>a. py_int 10 (the (register_vars st a)) \<notin> {Some 0, Some 1})
            (addresses start_idx len) = Some a \<longrightarrow>
          execute_register_command cl clk (st\<lparr>cmd_type_var := ''Write Coils''\<rparr>) =
            showerror
              (if py_int 10 (the (register_vars st a)) = None
               then ''Invalid value in register '' @ str_int a
                      @ ''. Please use Execute with proper values.''
               else ''Coil value in register '' @ str_int a @ '' must be 0 or 1.'')
              (st\<lparr>cmd_type_var := ''Write Coils''\<rparr>))
     \<and> (find (\<lambda>a. py_int 10 (the (register_vars st a)) \<notin> {Some 0, Some 1})
            (addresses start_idx len) = None \<longrightarrow>
          wire (execute_register_command cl clk (st\<lparr>cmd_type_var := ''Write Coils''\<rparr>)) =
            wire st @
            [WriteCoils start_idx
               (map (\<lambda>a. py_int 10 (the (register_vars st a)) = Some 1)
                  (addresses start_idx len))
               slave_id])
     \<and> execute_register_command cl clk
          ((clear_all_registers st)\<lparr>cmd_type_var := ''Write Coils''\<rparr>) =
        showerror
          (''Invalid value in register '' @ str_int start_idx
             @ ''. Please use Execute with proper values.'')
          ((clear_all_registers st)\<lparr>cmd_type_var := ''Write Coils''\<rparr>)
     \<and> (\<forall>r. cl (ReadCoils start_idx len slave_id) = Returns r \<and> \<not> isError r \<and> bits r \<noteq> []
            \<longrightarrow>
          execute_register_command cl2 clk2
            ((execute_register_command cl clk (st\<lparr>cmd_type_var := ''Read Coils''\<rparr>))
               \<lparr>cmd_type_var := ''Write Coils''\<rparr>) =
          showerror
            (''Invalid value in register '' @ str_int start_idx
               @ ''. Please use Execute with proper values.'')
            ((execute_register_command cl clk (st\<lparr>cmd_type_var := ''Read Coils''\<rparr>))
               \<lparr>cmd_type_var := ''Write Coils''\<rparr>))"
proof -
  let ?W = "st\<lparr>cmd_type_var := ''Write Coils''\<rparr>"
  let ?bad = "\<lambda>a. py_int 10 (the (register_vars st a)) \<notin> {Some 0, Some 1}"
  have in_bank: "register_vars st a \<noteq> None" if "a \<in> set (addresses start_idx len)" for a
  proof -
    have "0 \<le> a \<and> a \<le> 63" using in_addresses [OF that] range by auto
    then have "a \<in> dom (register_vars st)" using bank by simp
    then show ?thesis by auto
  qed
  have slot: "start_idx \<in> dom (register_vars st)" using bank range by simp
  have exec_W: "execute_register_command cl clk ?W =
      run_command cl clk ''Write Coils'' slave_id start_idx len ?W"
    using execute_valid [of ?W slave_id start_idx len cl clk] connected slave start count range
    by simp
  have collected: "collect_coils (register_vars ?W) [] (addresses start_idx len) =
      (case find ?bad (addresses start_idx len) of
         None \<Rightarrow> Inr ([] @ map (\<lambda>a. py_int 10 (the (register_vars st a)) = Some 1)
                            (addresses start_idx len))
       | Some a \<Rightarrow>
           Inl (if py_int 10 (the (register_vars st a)) = None
                then ''Invalid value in register '' @ str_int a
                       @ ''. Please use Execute with proper values.''
                else ''Coil value in register '' @ str_int a @ '' must be 0 or 1.''))"
    using collect_coils_find [of "addresses start_idx len" "register_vars st" "[]"] in_bank
    by simp
  have part1: "\<forall>a. find ?bad (addresses start_idx len) = Some a \<longrightarrow>
          execute_register_command cl clk ?W =
            showerror
              (if py_int 10 (the (register_vars st a)) = None
               then ''Invalid value in register '' @ str_int a
                      @ ''. Please use Execute with proper values.''
               else ''Coil value in register '' @ str_int a @ '' must be 0 or 1.'') ?W"
    unfolding exec_W run_write_coils collected by simp
  have part2: "find ?bad (addresses start_idx len) = None \<longrightarrow>
          wire (execute_register_command cl clk ?W) =
            wire st @
            [WriteCoils start_idx
               (map (\<lambda>a. py_int 10 (the (register_vars st a)) = Some 1)
                  (addresses start_idx len))
               slave_id]"
    unfolding exec_W run_write_coils collected by (simp add: call_client_wire)
  let ?C = "(clear_all_registers st)\<lparr>cmd_type_var := ''Write Coils''\<rparr>"
  have cleared: "register_vars ?C start_idx = Some ''0x0000''"
    using slot by (auto simp: clear_all_registers_def)
  have exec_C: "execute_register_command cl clk ?C =
      run_command cl clk ''Write Coils'' slave_id start_idx len ?C"
    using execute_valid [of ?C slave_id start_idx len cl clk] connected slave start count range
    by (simp add: clear_all_registers_def)
  have part3: "execute_register_command cl clk ?C =
        showerror
          (''Invalid value in register '' @ str_int start_idx
             @ ''. Please use Execute with proper values.'') ?C"
    unfolding exec_C run_write_coils
    using first_bad_slot [of len "register_vars ?C" start_idx "''0x0000''",
        OF range(2) cleared canonical_not_decimal(1)]
    by simp
  have part4: "execute_register_command cl2 clk2
            ((execute_register_command cl clk (st\<lparr>cmd_type_var := ''Read Coils''\<rparr>))
               \<lparr>cmd_type_var := ''Write Coils''\<rparr>) =
          showerror
            (''Invalid value in register '' @ str_int start_idx
               @ ''. Please use Execute with proper values.'')
            ((execute_register_command cl clk (st\<lparr>cmd_type_var := ''Read Coils''\<rparr>))
               \<lparr>cmd_type_var := ''Write Coils''\<rparr>)"
    if reply: "cl (ReadCoils start_idx len slave_id) = Returns r"
      and ok: "\<not> isError r" and some: "bits r \<noteq> []" for r
  proof -
    let ?R = "st\<lparr>cmd_type_var := ''Read Coils''\<rparr>"
    let ?before =
      "(log_modbus_frame ''Read Coils'' start_idx len slave_id None
          (log_message
             (''Sending Read Coils: Start='' @ str_int start_idx @ '', Count='' @ str_int len
                @ '', Device ID='' @ str_int slave_id)
             ''INFO'' ?R))\<lparr>wire := wire ?R @ [ReadCoils start_idx len slave_id]\<rparr>"
    have exec_R: "execute_register_command cl clk ?R =
        handle_register_result r ''Read Coils'' start_idx len clk True None ?before"
      using execute_valid [of ?R slave_id start_idx len cl clk] connected slave start count range
        reply
      by (simp add: run_read_coils call_client_def Let_def)
    let ?A = "(execute_register_command cl clk ?R)\<lparr>cmd_type_var := ''Write Coils''\<rparr>"
    obtain b bs where bits: "bits r = b # bs" using some by (cases "bits r") auto
    have "register_vars ?A start_idx =
        Some (''0x'' @ format_X 4 (if b then 1 else 0))"
      unfolding exec_R using slot ok bits
      by (auto simp: handle_register_result_def Let_def read_coils_no_register
          show_values_apply simp del: contains.simps show_values.simps)
    then have shown: "register_vars ?A start_idx = Some (if b then ''0x0001'' else ''0x0000'')"
      by (simp add: format_coil)
    have not_decimal: "py_int 10 (if b then ''0x0001'' else ''0x0000'') = None"
      by (simp add: canonical_not_decimal)
    have exec_A: "execute_register_command cl2 clk2 ?A =
        run_command cl2 clk2 ''Write Coils'' slave_id start_idx len ?A"
      using execute_valid [of ?A slave_id start_idx len cl2 clk2] connected slave start count
        range
      unfolding exec_R by simp
    show ?thesis
      unfolding exec_A run_write_coils
      using first_bad_slot [of len "register_vars ?A" start_idx
          "if b then ''0x0001'' else ''0x0000''", OF range(2) shown not_decimal]
      by simp
  qed
  show ?thesis using part1 part2 part3 part4 by blast
qed


lemma cleared_fields:
  "is_connected ((clear_all_registers st)\<lparr>cmd_type_var := c\<rparr>) = is_connected st"
  "slave_id_var ((clear_all_registers st)\<lparr>cmd_type_var := c\<rparr>) = slave_id_var st"
  "start_idx_var ((clear_all_registers st)\<lparr>cmd_type_var := c\<rparr>) = start_idx_var st"
  "length_var ((clear_all_registers st)\<lparr>cmd_type_var := c\<rparr>) = length_var st"
  by (simp_all add: clear_all_registers_def)

lemma execute_not_connected:
  "\<not> is_connected st \<Longrightarrow>
     execute_register_command cl clk st = showerror ''Not connected to Modbus device'' st"
  by (simp add: execute_register_command_def)

lemma execute_not_numbers:
  assumes "is_connected st"
    and "py_int 10 (slave_id_var st) = None \<or> py_int 10 (start_idx_var st) = None
         \<or> py_int 10 (length_var st) = None"
  shows "execute_register_command cl clk st =
           showerror ''Please enter valid numbers for start index and length'' st"
  using assms by (auto simp: execute_register_command_def split: option.split)

lemma execute_out_of_range:
  assumes "is_connected st"
    and "py_int 10 (slave_id_var st) = Some d"
    and "py_int 10 (start_idx_var st) = Some s"
    and "py_int 10 (length_var st) = Some n"
    and "\<not> (0 \<le> s \<and> 1 \<le> n \<and> s + n \<le> 64)"
  shows "execute_register_command cl clk st =
           showerror (if s < 0 \<or> s > 63 then ''Start index must be between 0 and 63''
                      else ''Invalid length or range exceeds register limit'') st"
proof (cases "s < 0 \<or> s > 63")
  case True
  then show ?thesis using assms(1-4) by (simp add: execute_register_command_def)
next
  case False
  then have "n < 1 \<or> n > 64 \<or> s + n > 64" using assms(5) by auto
  then show ?thesis using False assms(1-4) by (simp add: execute_register_command_def)
qed


text \<open>
  C9 (Write Coils takes a box only when \<open>int(text)\<close> is 0 or 1). For a window
  whose bank has its 64 boxes:
  \<^item> after Clear, Write Coils ends in an error box and leaves the state otherwise as it
    was, whatever the connection, the slave id, the start index and the length are;
  and when the window is connected and its slave id, start index and length are numbers
  in range:
  \<^item> when some box of the range holds a text that \<open>int\<close> does not read as 0 or 1, the
    command ends in an error box that names the first such box, and the state is
    otherwise as before (nothing is sent);
  \<^item> when every box of the range reads as 0 or 1, the coils are sent to the client;
  \<^item> after Clear every box holds \<open>0x0000\<close>, which \<open>int\<close> refuses: Write Coils ends in
    the error box naming the first box of its range;
  \<^item> after a successful Read Coils of the same range that returned at least one bit,
    the first box holds \<open>0x0000\<close> or \<open>0x0001\<close>: Write Coils ends the same way.
\<close>

theorem write_coils_needs_decimal_bits:
  assumes bank: "dom (register_vars st) = {0..63}"
  shows
    "(\<exists>m. execute_register_command cl clk
            ((clear_all_registers st)\<lparr>cmd_type_var := ''Write Coils''\<rparr>) =
          showerror m ((clear_all_registers st)\<lparr>cmd_type_var := ''Write Coils''\<rparr>))
     \<and> (is_connected st
          \<and> py_int 10 (slave_id_var st) = Some slave_id
          \<and> py_int 10 (start_idx_var st) = Some start_idx
          \<and> py_int 10 (length_var st) = Some len
          \<and> 0 \<le> start_idx \<and> 1 \<le> len \<and> start_idx + len \<le> 64
        \<longrightarrow>
        ((\<forall>a. find (\<lambda>a. py_int 10 (the (register_vars st a)) \<notin> {Some 0, Some 1})
            (addresses start_idx len) = Some a \<longrightarrow>
          execute_register_command cl clk (st\<lparr>cmd_type_var := ''Write Coils''\<rparr>) =
            showerror
              (if py_int 10 (the (register_vars st a)) = None
               then ''Invalid value in register '' @ str_int a
                      @ ''. Please use Execute with proper values.''
               else ''Coil value in register '' @ str_int a @ '' must be 0 or 1.'')
              (st\<lparr>cmd_type_var := ''Write Coils''\<rparr>))
     \<and> (find (\<lambda>a. py_int 10 (the (register_vars st a)) \<notin> {Some 0, Some 1})
            (addresses start_idx len) = None \<longrightarrow>
          wire (execute_register_command cl clk (st\<lparr>cmd_type_var := ''Write Coils''\<rparr>)) =
            wire st @
            [WriteCoils start_idx
               (map (\<lambda>a. py_int 10 (the (register_vars st a)) = Some 1)
                  (addresses start_idx len))
               slave_id])
     \<and> execute_register_command cl clk
          ((clear_all_registers st)\<lparr>cmd_type_var := ''Write Coils''\<rparr>) =
        showerror
          (''Invalid value in register '' @ str_int start_idx
             @ ''. Please use Execute with proper values.'')
          ((clear_all_registers st)\<lparr>cmd_type_var := ''Write Coils''\<rparr>)
     \<and> (\<forall>r. cl (ReadCoils start_idx len slave_id) = Returns r \<and> \<not> isError r \<and> bits r \<noteq> []
            \<longrightarrow>
          execute_register_command cl2 clk2
            ((execute_register_command cl clk (st\<lparr>cmd_type_var := ''Read Coils''\<rparr>))
               \<lparr>cmd_type_var := ''Write Coils''\<rparr>) =
          showerror
            (''Invalid value in register '' @ str_int start_idx
               @ ''. Please use Execute with proper values.'')
            ((execute_register_command cl clk (st\<lparr>cmd_type_var := ''Read Coils''\<rparr>))
               \<lparr>cmd_type_var := ''Write Coils''\<rparr>))))"
proof (rule conjI)
  let ?C = "(clear_all_registers st)\<lparr>cmd_type_var := ''Write Coils''\<rparr>"
  show "\<exists>m. execute_register_command cl clk ?C = showerror m ?C"
  proof (cases "is_connected st")
    case False
    then have nc: "\<not> is_connected ?C" by (simp add: cleared_fields)
    show ?thesis
    proof (rule exI)
      show "execute_register_command cl clk ?C =
              showerror ''Not connected to Modbus device'' ?C"
        using nc by (rule execute_not_connected)
    qed
  next
    case True
    then have conn: "is_connected ?C" by (simp only: cleared_fields)
    show ?thesis
    proof (cases "py_int 10 (slave_id_var st) = None \<or> py_int 10 (start_idx_var st) = None
         \<or> py_int 10 (length_var st) = None")
      case none: True
      then have "py_int 10 (slave_id_var ?C) = None \<or> py_int 10 (start_idx_var ?C) = None
         \<or> py_int 10 (length_var ?C) = None" by (simp only: cleared_fields)
      with conn have "execute_register_command cl clk ?C =
          showerror ''Please enter valid numbers for start index and length'' ?C"
        by (rule execute_not_numbers)
      show ?thesis
      proof (rule exI)
        show "execute_register_command cl clk ?C =
          showerror ''Please enter valid numbers for start index and length'' ?C"
          by fact
      qed
    next
      case False
      then obtain d s n where d: "py_int 10 (slave_id_var st) = Some d"
        and s: "py_int 10 (start_idx_var st) = Some s"
        and n: "py_int 10 (length_var st) = Some n" by auto
      show ?thesis
      proof (cases "0 \<le> s \<and> 1 \<le> n \<and> s + n \<le> 64")
        case valid: True
        then have r: "0 \<le> s" "1 \<le> n" "s + n \<le> 64" by simp_all
        note in_range = write_coils_in_range [OF True d s n r bank, of cl clk]
        show ?thesis
        proof (rule exI)
          show "execute_register_command cl clk ?C =
              showerror
                (''Invalid value in register '' @ str_int s
                   @ ''. Please use Execute with proper values.'') ?C"
            by (rule conjunct1 [OF conjunct2 [OF conjunct2 [OF in_range]]])
        qed
      next
        case invalid: False
        have d': "py_int 10 (slave_id_var ?C) = Some d"
          and s': "py_int 10 (start_idx_var ?C) = Some s"
          and n': "py_int 10 (length_var ?C) = Some n"
          using d s n by (simp_all only: cleared_fields)
        show ?thesis
        proof (rule exI)
          show "execute_register_command cl clk ?C =
              showerror (if s < 0 \<or> s > 63 then ''Start index must be between 0 and 63''
                         else ''Invalid length or range exceeds register limit'') ?C"
            using conn d' s' n' invalid by (rule execute_out_of_range)
        qed
      qed
    qed
  qed
next
  show "is_connected st
          \<and> py_int 10 (slave_id_var st) = Some slave_id
          \<and> py_int 10 (start_idx_var st) = Some start_idx
          \<and> py_int 10 (length_var st) = Some len
          \<and> 0 \<le> start_idx \<and> 1 \<le> len \<and> start_idx + len \<le> 64
        \<longrightarrow>
        ((\<forall>a. find (\<lambda>a. py_int 10 (the (register_vars st a)) \<notin> {Some 0, Some 1})
            (addresses start_idx len) = Some a \<longrightarrow>
          execute_register_command cl clk (st\<lparr>cmd_type_var := ''Write Coils''\<rparr>) =
            showerror
              (if py_int 10 (the (register_vars st a)) = None
               then ''Invalid value in register '' @ str_int a
                      @ ''. Please use Execute with proper values.''
               else ''Coil value in register '' @ str_int a @ '' must be 0 or 1.'')
              (st\<lparr>cmd_type_var := ''Write Coils''\<rparr>))
     \<and> (find (\<lambda>a. py_int 10 (the (register_vars st a)) \<notin> {Some 0, Some 1})
            (addresses start_idx len) = None \<longrightarrow>
          wire (execute_register_command cl clk (st\<lparr>cmd_type_var := ''Write Coils''\<rparr>)) =
            wire st @
            [WriteCoils start_idx
               (map (\<lambda>a. py_int 10 (the (register_vars st a)) = Some 1)
                  (addresses start_idx len))
               slave_id])
     \<and> execute_register_command cl clk
          ((clear_all_registers st)\<lparr>cmd_type_var := ''Write Coils''\<rparr>) =
        showerror
          (''Invalid value in register '' @ str_int start_idx
             @ ''. Please use Execute with proper values.'')
          ((clear_all_registers st)\<lparr>cmd_type_var := ''Write Coils''\<rparr>)
     \<and> (\<forall>r. cl (ReadCoils start_idx len slave_id) = Returns r \<and> \<not> isError r \<and> bits r \<noteq> []
            \<longrightarrow>
          execute_register_command cl2 clk2
            ((execute_register_command cl clk (st\<lparr>cmd_type_var := ''Read Coils''\<rparr>))
               \<lparr>cmd_type_var := ''Write Coils''\<rparr>) =
          showerror
            (''Invalid value in register '' @ str_int start_idx
               @ ''. Please use Execute with proper values.'')
            ((execute_register_command cl clk (st\<lparr>cmd_type_var := ''Read Coils''\<rparr>))
               \<lparr>cmd_type_var := ''Write Coils''\<rparr>)))"
  proof (rule impI)
    assume h: "is_connected st
          \<and> py_int 10 (slave_id_var st) = Some slave_id
          \<and> py_int 10 (start_idx_var st) = Some start_idx
          \<and> py_int 10 (length_var st) = Some len
          \<and> 0 \<le> start_idx \<and> 1 \<le> len \<and> start_idx + len \<le> 64"
    then have c: "is_connected st" and d: "py_int 10 (slave_id_var st) = Some slave_id"
      and s: "py_int 10 (start_idx_var st) = Some start_idx"
      and n: "py_int 10 (length_var st) = Some len"
      and r: "0 \<le> start_idx" "1 \<le> len" "start_idx + len \<le> 64" by simp_all
    show "(\<forall>a. find (\<lambda>a. py_int 10 (the (register_vars st a)) \<notin> {Some 0, Some 1})
            (addresses start_idx len) = Some a \<longrightarrow>
          execute_register_command cl clk (st\<lparr>cmd_type_var := ''Write Coils''\<rparr>) =
            showerror
              (if py_int 10 (the (register_vars st a)) = None
               then ''Invalid value in register '' @ str_int a
                      @ ''. Please use Execute with proper values.''
               else ''Coil value in register '' @ str_int a @ '' must be 0 or 1.'')
              (st\<lparr>cmd_type_var := ''Write Coils''\<rparr>))
     \<and> (find (\<lambda>a. py_int 10 (the (register_vars st a)) \<notin> {Some 0, Some 1})
            (addresses start_idx len) = None \<longrightarrow>
          wire (execute_register_command cl clk (st\<lparr>cmd_type_var := ''Write Coils''\<rparr>)) =
            wire st @
            [WriteCoils start_idx
               (map (\<lambda>a. py_int 10 (the (register_vars st a)) = Some 1)
                  (addresses start_idx len))
               slave_id])
     \<and> execute_register_command cl clk
          ((clear_all_registers st)\<lparr>cmd_type_var := ''Write Coils''\<rparr>) =
        showerror
          (''Invalid value in register '' @ str_int start_idx
             @ ''. Please use Execute with proper values.'')
          ((clear_all_registers st)\<lparr>cmd_type_var := ''Write Coils''\<rparr>)
     \<and> (\<forall>r. cl (ReadCoils start_idx len slave_id) = Returns r \<and> \<not> isError r \<and> bits r \<noteq> []
            \<longrightarrow>
          execute_register_command cl2 clk2
            ((execute_register_command cl clk (st\<lparr>cmd_type_var := ''Read Coils''\<rparr>))
               \<lparr>cmd_type_var := ''Write Coils''\<rparr>) =
          showerror
            (''Invalid value in register '' @ str_int start_idx
               @ ''. Please use Execute with proper values.'')
            ((execute_register_command cl clk (st\<lparr>cmd_type_var := ''Read Coils''\<rparr>))
               \<lparr>cmd_type_var := ''Write Coils''\<rparr>))"
      by (rule write_coils_in_range [OF c d s n r bank])
  qed
qed

lemma sample_bank: "dom (register_vars sample_gui) = {0..63}"
  by (auto simp: sample_gui_def initial_registers_def dom_def)

lemma sample_fields:
  "py_int 10 (slave_id_var sample_gui) = Some 1"
  "py_int 10 (start_idx_var sample_gui) = Some 0"
  "py_int 10 (length_var sample_gui) = Some 1"
  by code_simp+

text \<open>
  The window after a connection, with slave 1, start 0 and length 1.
\<close>

theorem write_coils_needs_decimal_bits_witness:
  "is_connected sample_gui
   \<and> py_int 10 (slave_id_var sample_gui) = Some 1
   \<and> py_int 10 (start_idx_var sample_gui) = Some 0
   \<and> py_int 10 (length_var sample_gui) = Some 1
   \<and> dom (register_vars sample_gui) = {0..63}
   \<and> register_vars sample_gui 0 = Some ''0x0000''
   \<and> execute_register_command (\<lambda>_. Returns coil_response) sample_clock
        (sample_gui\<lparr>cmd_type_var := ''Write Coils''\<rparr>) =
      showerror ''Invalid value in register 0. Please use Execute with proper values.''
        (sample_gui\<lparr>cmd_type_var := ''Write Coils''\<rparr>)
   \<and> execute_register_command (\<lambda>_. Returns coil_response) sample_clock
        ((clear_all_registers sample_gui)\<lparr>cmd_type_var := ''Write Coils''\<rparr>) =
      showerror ''Invalid value in register 0. Please use Execute with proper values.''
        ((clear_all_registers sample_gui)\<lparr>cmd_type_var := ''Write Coils''\<rparr>)
   \<and> execute_register_command (\<lambda>_. Returns coil_response) sample_clock
        ((execute_register_command (\<lambda>_. Returns coil_response) sample_clock
            (sample_gui\<lparr>cmd_type_var := ''Read Coils''\<rparr>))\<lparr>cmd_type_var := ''Write Coils''\<rparr>) =
      showerror ''Invalid value in register 0. Please use Execute with proper values.''
        ((execute_register_command (\<lambda>_. Returns coil_response) sample_clock
            (sample_gui\<lparr>cmd_type_var := ''Read Coils''\<rparr>))\<lparr>cmd_type_var := ''Write Coils''\<rparr>)"
proof -
  let ?cl = "\<lambda>_::client_call. Returns coil_response"
  have connected: "is_connected sample_gui" by (simp add: sample_gui_def)
  have r1: "(0::int) \<le> 0" and r2: "(1::int) \<le> 1" and r3: "(0::int) + 1 \<le> 64" by simp_all
  have slot: "register_vars sample_gui 0 = Some ''0x0000''"
    by (simp add: sample_gui_def initial_registers_def)
  have first: "find (\<lambda>a. py_int 10 (the (register_vars sample_gui a)) \<notin> {Some 0, Some 1})
                 (addresses 0 1) = Some 0"
    by (simp add: addresses_def py_range_def slot canonical_not_decimal)
  have reply: "?cl (ReadCoils 0 1 1) = Returns coil_response \<and> \<not> isError coil_response
                 \<and> bits coil_response \<noteq> []"
    by (simp add: coil_response_def)
  have valid: "is_connected sample_gui
      \<and> py_int 10 (slave_id_var sample_gui) = Some 1
      \<and> py_int 10 (start_idx_var sample_gui) = Some 0
      \<and> py_int 10 (length_var sample_gui) = Some 1
      \<and> (0::int) \<le> 0 \<and> (1::int) \<le> 1 \<and> (0::int) + 1 \<le> 64"
    using connected sample_fields by simp
  note all = mp [OF conjunct2
      [OF write_coils_needs_decimal_bits
          [where st = sample_gui and slave_id = 1 and start_idx = 0 and len = 1 and cl = ?cl
             and clk = sample_clock and ?cl2.0 = ?cl and ?clk2.0 = sample_clock,
           OF sample_bank]] valid]
  have p1: "execute_register_command ?cl sample_clock
        (sample_gui\<lparr>cmd_type_var := ''Write Coils''\<rparr>) =
      showerror ''Invalid value in register 0. Please use Execute with proper values.''
        (sample_gui\<lparr>cmd_type_var := ''Write Coils''\<rparr>)"
    using all first slot by (simp add: canonical_not_decimal str_int_0)
  have p3: "execute_register_command ?cl sample_clock
        ((clear_all_registers sample_gui)\<lparr>cmd_type_var := ''Write Coils''\<rparr>) =
      showerror ''Invalid value in register 0. Please use Execute with proper values.''
        ((clear_all_registers sample_gui)\<lparr>cmd_type_var := ''Write Coils''\<rparr>)"
    using all by (simp add: str_int_0)
  have p4: "execute_register_command ?cl sample_clock
        ((execute_register_command ?cl sample_clock
            (sample_gui\<lparr>cmd_type_var := ''Read Coils''\<rparr>))\<lparr>cmd_type_var := ''Write Coils''\<rparr>) =
      showerror ''Invalid value in register 0. Please use Execute with proper values.''
        ((execute_register_command ?cl sample_clock
            (sample_gui\<lparr>cmd_type_var := ''Read Coils''\<rparr>))\<lparr>cmd_type_var := ''Write Coils''\<rparr>)"
    using all reply by (simp add: str_int_0)
  show ?thesis
    using connected sample_fields sample_bank slot p1 p3 p4 by simp
qed

subsection \<open>Committing the text of a box\<close>

































end
